theory Spec2Isabelle
  imports
    Complex_Main
    "HOL-Library.Char_ord"
    "HOL-Library.List_Lexorder"
    "HOL-Library.Product_Lexorder"
begin

section \<open>Data model\<close>

text \<open>
  A data frame is modelled row-wise, as the list of its rows in index order. A row of the
  uploaded temperature table has the eight columns that \<^verbatim>\<open>app.py\<close> reads; any further
  column of the file lives in the extension part of the record, which no step touches.

  A cell that pandas reads as NaN is \<open>None\<close>. The two columns that the cleaning fills
  (\<open>State\<close> and \<open>Year\<close>) are nullable, and so is the \<open>state\<close> column of the city
  table, which is the same kind of column. The other columns are taken to hold no null.

  A row of this type is a row of a numeric table: its \<open>Year\<close> cell is a number or NaN
  and its temperature is a number. Cells of any other kind (text, Python's
  \<^verbatim>\<open>None\<close>) are the subject of the section on tables as read from a file.

  A temperature is a finite 64-bit floating-point value, given as the real number it
  denotes. The conversion to Celsius rounds after every operation, as the code does; the
  mean of a group is taken in exact arithmetic.
\<close>

datatype error = TypeError | ValueError

record row =
  Region :: string
  Country :: string
  State :: "string option"
  City :: string
  Year :: "int option"
  Month :: int
  Day :: int
  AvgTemperature :: real

record city =
  name :: string
  state :: "string option"


section \<open>The cleaning pipeline: \<^verbatim>\<open>preprocess_temperature_data\<close>\<close>

subsection \<open>State resolution\<close>

text \<open>
  \<^verbatim>\<open>cities.set_index("name")["state"].to_dict()\<close>: a dictionary built row by row,
  so that a later row of the city table overwrites an earlier one with the same name.
\<close>

definition city_to_state :: "city list \<Rightarrow> (string \<rightharpoonup> string option)" where
  "city_to_state cities = map_of (rev (map (\<lambda>c. (name c, state c)) cities))"

text \<open>\<^verbatim>\<open>d.get(k, default)\<close> of a Python dictionary.\<close>

definition dict_get :: "('k \<rightharpoonup> 'v) \<Rightarrow> 'k \<Rightarrow> 'v \<Rightarrow> 'v" where
  "dict_get d k dflt = (case d k of Some v \<Rightarrow> v | None \<Rightarrow> dflt)"

text \<open>\<^verbatim>\<open>Series.fillna(value)\<close> on one cell.\<close>

definition fillna :: "'a \<Rightarrow> 'a option \<Rightarrow> 'a option" where
  "fillna v c = (case c of None \<Rightarrow> Some v | Some x \<Rightarrow> Some x)"

text \<open>
  \<^verbatim>\<open>cleaned_data["State"] = cleaned_data.apply(lambda row:
      city_to_state.get(row["City"], row["State"]), axis=1)\<close>
\<close>

definition assign_state :: "(string \<rightharpoonup> string option) \<Rightarrow> 'a row_scheme list \<Rightarrow> 'a row_scheme list" where
  "assign_state d rows = map (\<lambda>r. r\<lparr>State := dict_get d (City r) (State r)\<rparr>) rows"

text \<open>\<^verbatim>\<open>cleaned_data["State"].fillna("Unknown", inplace=True)\<close>\<close>

definition fillna_state :: "'a row_scheme list \<Rightarrow> 'a row_scheme list" where
  "fillna_state rows = map (\<lambda>r. r\<lparr>State := fillna ''Unknown'' (State r)\<rparr>) rows"

subsection \<open>Day correction\<close>

text \<open>\<^verbatim>\<open>Series.replace(0, 1)\<close> on one cell.\<close>

definition replace_cell :: "int \<Rightarrow> int \<Rightarrow> int \<Rightarrow> int" where
  "replace_cell old new x = (if x = old then new else x)"

text \<open>\<^verbatim>\<open>cleaned_data["Day"] = cleaned_data["Day"].replace(0, 1)\<close>\<close>

definition replace_day :: "'a row_scheme list \<Rightarrow> 'a row_scheme list" where
  "replace_day rows = map (\<lambda>r. r\<lparr>Day := replace_cell 0 1 (Day r)\<rparr>) rows"

subsection \<open>Year correction\<close>

text \<open>
  \<^verbatim>\<open>lambda year: year if 1900 <= year <= 2024 else None\<close> on a cell of a numeric
  column. On a NaN cell both comparisons are false, so the cell stays null. In a column
  with at least one valid year the \<^verbatim>\<open>None\<close> that the lambda returns is stored as
  NaN, which the fills then replace. What the comparison does on a cell that is not a
  number is \<open>year_value\<close> below.
\<close>

definition check_year :: "int option \<Rightarrow> int option" where
  "check_year c =
     (case c of
        None \<Rightarrow> None
      | Some year \<Rightarrow> if 1900 \<le> year \<and> year \<le> 2024 then Some year else None)"

text \<open>
  \<^verbatim>\<open>fillna(method="ffill")\<close>: a null cell takes the last non-null value above it; the
  first argument is that value (\<open>None\<close> while there is none yet).
\<close>

fun ffill_from :: "'a option \<Rightarrow> 'a option list \<Rightarrow> 'a option list" where
  "ffill_from prev [] = []"
| "ffill_from prev (None # cs) = prev # ffill_from prev cs"
| "ffill_from prev (Some v # cs) = Some v # ffill_from (Some v) cs"

definition ffill :: "'a option list \<Rightarrow> 'a option list" where
  "ffill cs = ffill_from None cs"

text \<open>
  \<^verbatim>\<open>fillna(method="bfill")\<close>: a null cell takes the first non-null value below it,
  which is the head of the filled rest of the column.
\<close>

fun bfill :: "'a option list \<Rightarrow> 'a option list" where
  "bfill [] = []"
| "bfill (Some v # cs) = Some v # bfill cs"
| "bfill (None # cs) = (case bfill cs of [] \<Rightarrow> None | c # _ \<Rightarrow> c) # bfill cs"

text \<open>Writing a column back into the frame, cell by cell.\<close>

definition set_year :: "'a row_scheme list \<Rightarrow> int option list \<Rightarrow> 'a row_scheme list" where
  "set_year rows ys = map (\<lambda>(r, y). r\<lparr>Year := y\<rparr>) (zip rows ys)"

text \<open>
  The three statements on the \<open>Year\<close> column: the range check, then the forward fill,
  then the backward fill.
\<close>

definition correct_years :: "int option list \<Rightarrow> int option list" where
  "correct_years ys = bfill (ffill (map check_year ys))"

definition correct_year :: "'a row_scheme list \<Rightarrow> 'a row_scheme list" where
  "correct_year rows = set_year rows (correct_years (map Year rows))"

subsection \<open>Floating-point arithmetic\<close>

text \<open>
  Rounding of a real number to the nearest 64-bit floating-point value, ties to the even
  significand: the value is scaled so that its significand is an integer of 53 bits
  (or, below the normal range, by the fixed least exponent), rounded to an integer and
  scaled back. Values beyond the largest finite value, infinities and NaN are outside
  this model.
\<close>

definition round_half_even :: "real \<Rightarrow> int" where
  "round_half_even y =
     (let n = \<lfloor>y\<rfloor>; d = y - of_int n
      in if d < 1 / 2 then n
         else if 1 / 2 < d then n + 1
         else if even n then n else n + 1)"

definition f64 :: "real \<Rightarrow> real" where
  "f64 x =
     (if x = 0 then 0
      else let e = max (\<lfloor>log 2 \<bar>x\<bar>\<rfloor> - 52) (- 1074)
           in of_int (round_half_even (x / 2 powi e)) * 2 powi e)"

text \<open>The operators \<^verbatim>\<open>-\<close>, \<^verbatim>\<open>+\<close>, \<^verbatim>\<open>*\<close> and \<^verbatim>\<open>/\<close> on floats: the exact result, rounded.\<close>

definition fsub :: "real \<Rightarrow> real \<Rightarrow> real" where
  "fsub x y = f64 (x - y)"

definition fadd :: "real \<Rightarrow> real \<Rightarrow> real" where
  "fadd x y = f64 (x + y)"

definition fmul :: "real \<Rightarrow> real \<Rightarrow> real" where
  "fmul x y = f64 (x * y)"

definition fdiv :: "real \<Rightarrow> real \<Rightarrow> real" where
  "fdiv x y = f64 (x / y)"

subsection \<open>Unit conversion\<close>

text \<open>\<^verbatim>\<open>(t - 32) * 5 / 9\<close> on one cell: three operations, left to right.\<close>

definition to_celsius :: "real \<Rightarrow> real" where
  "to_celsius f = fdiv (fmul (fsub f 32) 5) 9"

text \<open>\<^verbatim>\<open>cleaned_data["AvgTemperature"] = (cleaned_data["AvgTemperature"] - 32) * 5 / 9\<close>\<close>

definition convert_temperature :: "'a row_scheme list \<Rightarrow> 'a row_scheme list" where
  "convert_temperature rows = map (\<lambda>r. r\<lparr>AvgTemperature := to_celsius (AvgTemperature r)\<rparr>) rows"

subsection \<open>The whole function\<close>

definition preprocess_temperature_data :: "'a row_scheme list \<Rightarrow> city list \<Rightarrow> 'a row_scheme list" where
  "preprocess_temperature_data data cities =
     (let cleaned_data = data;
          cleaned_data = assign_state (city_to_state cities) cleaned_data;
          cleaned_data = fillna_state cleaned_data;
          cleaned_data = replace_day cleaned_data;
          cleaned_data = correct_year cleaned_data;
          cleaned_data = convert_temperature cleaned_data
      in cleaned_data)"


section \<open>Tables as read from a file\<close>

text \<open>
  \<^verbatim>\<open>read_csv\<close> delivers a column with a text cell as a column of objects, and the
  function itself writes Python's \<^verbatim>\<open>None\<close> into the \<open>Year\<close> column when no year of
  the table is valid. On such cells the two arithmetic statements of the function raise:
  the comparison \<^verbatim>\<open>1900 <= year\<close> raises TypeError on text and on \<^verbatim>\<open>None\<close>, and
  \<^verbatim>\<open>cleaned_data["AvgTemperature"] - 32\<close> raises TypeError on text. The function has no
  handler, so the call raises.
\<close>

datatype year_cell = YearNumber int | YearNaN | YearNone | YearText string

datatype temperature_cell = TemperatureNumber real | TemperatureText string

record csv_row =
  csv_Region :: string
  csv_Country :: string
  csv_State :: "string option"
  csv_City :: string
  csv_Year :: year_cell
  csv_Month :: int
  csv_Day :: int
  csv_AvgTemperature :: temperature_cell

text \<open>The operand that \<^verbatim>\<open>1900 <= year <= 2024\<close> compares, or the error it raises.\<close>

fun year_value :: "year_cell \<Rightarrow> error + int option" where
  "year_value (YearNumber y) = Inr (Some y)"
| "year_value YearNaN = Inr None"
| "year_value YearNone = Inl TypeError"
| "year_value (YearText s) = Inl TypeError"

text \<open>The operand of \<^verbatim>\<open>- 32\<close>, or the error it raises.\<close>

fun temperature_value :: "temperature_cell \<Rightarrow> error + real" where
  "temperature_value (TemperatureNumber t) = Inr t"
| "temperature_value (TemperatureText s) = Inl TypeError"

text \<open>A statement over a whole column raises at the first cell that raises.\<close>

fun all_or_raise :: "('c \<Rightarrow> error + 'v) \<Rightarrow> 'c list \<Rightarrow> error + 'v list" where
  "all_or_raise f [] = Inr []"
| "all_or_raise f (c # cs) =
     (case f c of
        Inl e \<Rightarrow> Inl e
      | Inr v \<Rightarrow> (case all_or_raise f cs of Inl e \<Rightarrow> Inl e | Inr vs \<Rightarrow> Inr (v # vs)))"

text \<open>The row of a numeric table that a row of the file is, given its two numbers.\<close>

definition as_row :: "'a csv_row_scheme \<Rightarrow> int option \<Rightarrow> real \<Rightarrow> 'a row_scheme" where
  "as_row r y t =
     \<lparr>Region = csv_Region r, Country = csv_Country r, State = csv_State r,
      City = csv_City r, Year = y, Month = csv_Month r, Day = csv_Day r,
      AvgTemperature = t, \<dots> = csv_row.more r\<rparr>"

text \<open>
  \<^verbatim>\<open>preprocess_temperature_data\<close> on a table as read: the statements on \<open>State\<close> and
  \<open>Day\<close> cannot raise; the statement on \<open>Year\<close> is reached first and the one on the
  temperature after it; where neither raises, the result is that of the numeric table.
\<close>

definition preprocess_or_raise :: "'a csv_row_scheme list \<Rightarrow> city list \<Rightarrow> error + 'a row_scheme list" where
  "preprocess_or_raise raw cities =
     (case all_or_raise year_value (map csv_Year raw) of
        Inl e \<Rightarrow> Inl e
      | Inr ys \<Rightarrow>
          (case all_or_raise temperature_value (map csv_AvgTemperature raw) of
             Inl e \<Rightarrow> Inl e
           | Inr ts \<Rightarrow>
               Inr (preprocess_temperature_data
                      (map (\<lambda>(r, y, t). as_row r y t) (zip raw (zip ys ts))) cities)))"

text \<open>A row whose \<open>Year\<close> cell is a number or NaN and whose temperature is a number.\<close>

definition numeric_cells :: "'a csv_row_scheme \<Rightarrow> bool" where
  "numeric_cells r =
     ((case csv_Year r of YearNumber y \<Rightarrow> True | YearNaN \<Rightarrow> True | _ \<Rightarrow> False) \<and>
      (case csv_AvgTemperature r of TemperatureNumber t \<Rightarrow> True | _ \<Rightarrow> False))"


section \<open>The aggregation layer\<close>

text \<open>
  A grouped mean, \<^verbatim>\<open>data.groupby(key)[column].mean()\<close>: one entry per key value
  that occurs in the frame, in sorted key order (pandas sorts the group keys), holding
  the mean of the column over the rows of that group, taken in exact arithmetic. A
  summary is the list of its (key, mean) entries in iteration order.
\<close>

definition mean :: "real list \<Rightarrow> real" where
  "mean xs = sum_list xs / real (length xs)"

definition groupby_mean :: "('r \<Rightarrow> 'k::linorder) \<Rightarrow> ('r \<Rightarrow> real) \<Rightarrow> 'r list \<Rightarrow> ('k \<times> real) list" where
  "groupby_mean key val rows =
     map (\<lambda>k. (k, mean (map val (filter (\<lambda>r. key r = k) rows))))
       (sort (remdups (map key rows)))"

text \<open>
  \<^verbatim>\<open>Series.sort_values()\<close>: ascending by value. The order that pandas gives to
  entries of equal value depends on the sorting algorithm; here they keep their order.
\<close>

definition sort_values :: "('k \<times> real) list \<Rightarrow> ('k \<times> real) list" where
  "sort_values s = sort_key snd s"

text \<open>\<^verbatim>\<open>cleaned_data.groupby("Region")["AvgTemperature"].mean().sort_values()\<close>\<close>

definition regional_avg_temp :: "'a row_scheme list \<Rightarrow> (string \<times> real) list" where
  "regional_avg_temp cleaned_data = sort_values (groupby_mean Region AvgTemperature cleaned_data)"

text \<open>\<^verbatim>\<open>data.groupby(["Region", "Month"])["AvgTemperature"].mean().reset_index()\<close>\<close>

definition seasonal_data :: "'a row_scheme list \<Rightarrow> ((string \<times> int) \<times> real) list" where
  "seasonal_data data = groupby_mean (\<lambda>r. (Region r, Month r)) AvgTemperature data"

text \<open>\<^verbatim>\<open>data.groupby("Country")["AvgTemperature"].mean().reset_index()\<close>\<close>

definition avg_temps :: "'a row_scheme list \<Rightarrow> (string \<times> real) list" where
  "avg_temps data = groupby_mean Country AvgTemperature data"

subsection \<open>Extreme lookup\<close>

text \<open>
  \<^verbatim>\<open>min\<close>/\<^verbatim>\<open>idxmin\<close> and \<^verbatim>\<open>max\<close>/\<^verbatim>\<open>idxmax\<close> of a series: one pass that
  keeps the best entry seen so far and replaces it only by a strictly better one, so the
  first of several equal extremes is the one reported.
\<close>

fun scan_extreme :: "(real \<Rightarrow> real \<Rightarrow> bool) \<Rightarrow> 'k \<times> real \<Rightarrow> ('k \<times> real) list \<Rightarrow> 'k \<times> real" where
  "scan_extreme better best [] = best"
| "scan_extreme better best (e # es) =
     scan_extreme better (if better (snd e) (snd best) then e else best) es"

definition first_extreme :: "(real \<Rightarrow> real \<Rightarrow> bool) \<Rightarrow> ('k \<times> real) list \<Rightarrow> ('k \<times> real) option" where
  "first_extreme better s = (case s of [] \<Rightarrow> None | e # es \<Rightarrow> Some (scan_extreme better e es))"

text \<open>On an empty series \<^verbatim>\<open>min()\<close> is NaN and \<^verbatim>\<open>idxmin()\<close> raises ValueError.\<close>

definition series_min :: "('k \<times> real) list \<Rightarrow> real option" where
  "series_min s = map_option snd (first_extreme (\<lambda>a b. a < b) s)"

definition series_max :: "('k \<times> real) list \<Rightarrow> real option" where
  "series_max s = map_option snd (first_extreme (\<lambda>a b. b < a) s)"

definition idxmin :: "('k \<times> real) list \<Rightarrow> error + 'k" where
  "idxmin s = (case first_extreme (\<lambda>a b. a < b) s of None \<Rightarrow> Inl ValueError | Some e \<Rightarrow> Inr (fst e))"

definition idxmax :: "('k \<times> real) list \<Rightarrow> error + 'k" where
  "idxmax s = (case first_extreme (\<lambda>a b. b < a) s of None \<Rightarrow> Inl ValueError | Some e \<Rightarrow> Inr (fst e))"

text \<open>
  The branch of \<^verbatim>\<open>plot_bar_chart\<close> that picks the annotated bar: the pair
  \<^verbatim>\<open>(region, temp)\<close> for the radio selection.
\<close>

definition plot_bar_chart_extreme :: "string \<Rightarrow> ('k \<times> real) list \<Rightarrow> error + ('k \<times> real)" where
  "plot_bar_chart_extreme selection regional =
     (if selection = ''Min'' then
        (case (series_min regional, idxmin regional) of
           (Some temp, Inr region) \<Rightarrow> Inr (region, temp)
         | _ \<Rightarrow> Inl ValueError)
      else
        (case (series_max regional, idxmax regional) of
           (Some temp, Inr region) \<Rightarrow> Inr (region, temp)
         | _ \<Rightarrow> Inl ValueError))"

text \<open>
  \<^verbatim>\<open>region_data.loc[region_data["AvgTemperature"].idxmax()]\<close> in
  \<^verbatim>\<open>plot_seasonal_trends\<close>; a region without rows is skipped (\<open>None\<close>).
\<close>

definition max_temp_row :: "string \<Rightarrow> ((string \<times> int) \<times> real) list \<Rightarrow> ((string \<times> int) \<times> real) option" where
  "max_temp_row region seasonal =
     (let region_data = filter (\<lambda>e. fst (fst e) = region) seasonal
      in if region_data = [] then None else first_extreme (\<lambda>a b. b < a) region_data)"


section \<open>The cleaning pipeline on a store\<close>

text \<open>
  To speak about what a call leaves untouched, the frames live in a store and are named
  by their position in it. \<^verbatim>\<open>data.copy()\<close> allocates a new frame; every later
  statement reads and writes the frame at that new position.
\<close>

record 'a store =
  frames :: "'a row_scheme list list"
  city_frames :: "city list list"

definition copy_frame :: "nat \<Rightarrow> 'a store \<Rightarrow> nat \<times> 'a store" where
  "copy_frame a h = (length (frames h), h\<lparr>frames := frames h @ [frames h ! a]\<rparr>)"

definition modify_frame :: "nat \<Rightarrow> ('a row_scheme list \<Rightarrow> 'a row_scheme list) \<Rightarrow> 'a store \<Rightarrow> 'a store" where
  "modify_frame a f h = h\<lparr>frames := (frames h)[a := f (frames h ! a)]\<rparr>"

definition preprocess_store :: "nat \<Rightarrow> nat \<Rightarrow> 'a store \<Rightarrow> (nat \<times> 'a store) option" where
  "preprocess_store data cities h =
     (if data < length (frames h) \<and> cities < length (city_frames h) then
        (let (cleaned_data, h) = copy_frame data h;
             d = city_to_state (city_frames h ! cities);
             h = modify_frame cleaned_data (assign_state d) h;
             h = modify_frame cleaned_data fillna_state h;
             h = modify_frame cleaned_data replace_day h;
             h = modify_frame cleaned_data correct_year h;
             h = modify_frame cleaned_data convert_temperature h
         in Some (cleaned_data, h))
      else None)"


section \<open>Reference notions for the year fill\<close>

text \<open>
  The nearest valid value at or above a position, and the nearest one below it, read
  off the column directly. These two follow the wording of the specification (nearest
  preceding, nearest following), not the code; they are what the two fills are compared
  with.
\<close>

fun first_valid :: "'a option list \<Rightarrow> 'a option" where
  "first_valid [] = None"
| "first_valid (Some v # cs) = Some v"
| "first_valid (None # cs) = first_valid cs"

definition nearest_preceding :: "'a option list \<Rightarrow> nat \<Rightarrow> 'a option" where
  "nearest_preceding cs i = first_valid (rev (take (Suc i) cs))"

definition nearest_following :: "'a option list \<Rightarrow> nat \<Rightarrow> 'a option" where
  "nearest_following cs i = first_valid (drop (Suc i) cs)"


text \<open>
  Modelled from the spec: the inverse conversion \<^verbatim>\<open>celsius_to_fahrenheit\<close>, which the
  source does not contain. The specification gives it as \<^verbatim>\<open>(c * 9/5) + 32\<close>; it is
  evaluated on floats, left to right.
\<close>

definition celsius_to_fahrenheit :: "real \<Rightarrow> real" where
  "celsius_to_fahrenheit c = fadd (fdiv (fmul c 9) 5) 32"


section \<open>The pipeline read row by row\<close>

text \<open>
  What the five statements together do to one row, given the corrected year of that row.
  The pipeline is shown below to be this function mapped over the rows.
\<close>

definition clean_row :: "(string \<rightharpoonup> string option) \<Rightarrow> 'a row_scheme \<Rightarrow> int option \<Rightarrow> 'a row_scheme" where
  "clean_row d r y =
     r\<lparr>State := fillna ''Unknown'' (dict_get d (City r) (State r)),
       Day := replace_cell 0 1 (Day r),
       Year := y,
       AvgTemperature := to_celsius (AvgTemperature r)\<rparr>"


section \<open>Sample tables\<close>

definition springfield :: row where
  "springfield = \<lparr>Region = ''North America'', Country = ''US'', State = None,
     City = ''Springfield'', Year = Some 2099, Month = 7, Day = 0, AvgTemperature = 32\<rparr>"

definition columbus :: row where
  "columbus = \<lparr>Region = ''North America'', Country = ''US'', State = Some ''Ohio'',
     City = ''Columbus'', Year = Some 2005, Month = 7, Day = 15, AvgTemperature = 50\<rparr>"

definition illinois :: "city list" where
  "illinois = [\<lparr>name = ''Springfield'', state = Some ''Illinois''\<rparr>]"

definition stateless :: "city list" where
  "stateless = [\<lparr>name = ''Columbus'', state = None\<rparr>]"

definition asia10 :: row where
  "asia10 = \<lparr>Region = ''Asia'', Country = ''India'', State = Some ''Unknown'',
     City = ''Delhi'', Year = Some 2000, Month = 2, Day = 1, AvgTemperature = 10\<rparr>"

definition asia20 :: row where
  "asia20 = \<lparr>Region = ''Asia'', Country = ''India'', State = Some ''Unknown'',
     City = ''Delhi'', Year = Some 2000, Month = 1, Day = 1, AvgTemperature = 20\<rparr>"

definition europe5 :: row where
  "europe5 = \<lparr>Region = ''Europe'', Country = ''France'', State = Some ''Unknown'',
     City = ''Paris'', Year = Some 2000, Month = 1, Day = 1, AvgTemperature = 5\<rparr>"

definition asia_feb :: row where
  "asia_feb = \<lparr>Region = ''Asia'', Country = ''India'', State = Some ''Unknown'',
     City = ''Delhi'', Year = Some 2000, Month = 2, Day = 1, AvgTemperature = 10\<rparr>"

definition asia_jan :: row where
  "asia_jan = \<lparr>Region = ''Asia'', Country = ''India'', State = Some ''Unknown'',
     City = ''Delhi'', Year = Some 2000, Month = 1, Day = 1, AvgTemperature = 10\<rparr>"

definition csv_springfield :: csv_row where
  "csv_springfield = \<lparr>csv_Region = ''North America'', csv_Country = ''US'', csv_State = None,
     csv_City = ''Springfield'', csv_Year = YearNumber 2099, csv_Month = 7, csv_Day = 0,
     csv_AvgTemperature = TemperatureNumber 32\<rparr>"

definition csv_columbus :: csv_row where
  "csv_columbus = \<lparr>csv_Region = ''North America'', csv_Country = ''US'',
     csv_State = Some ''Ohio'', csv_City = ''Columbus'', csv_Year = YearNumber 2005,
     csv_Month = 7, csv_Day = 15, csv_AvgTemperature = TemperatureNumber 50\<rparr>"

definition sample_store :: "unit store" where
  "sample_store = \<lparr>frames = [[springfield, columbus]], city_frames = [illinois]\<rparr>"



section \<open>Floating-point arithmetic: evaluation and error\<close>

lemma round_half_even_close: "\<bar>of_int (round_half_even y) - y\<bar> \<le> 1 / 2"
  unfolding round_half_even_def Let_def by (auto simp: abs_if) linarith+

lemma floor_log2_eq:
  assumes "2 powi k \<le> x" "x < 2 powi (k + 1)"
  shows "\<lfloor>log 2 x\<rfloor> = k"
proof -
  have p: "0 < (2::real) powi k" by (rule zero_less_power_int) simp
  with assms(1) have x: "0 < x" by linarith
  have a: "(2::real) powr real_of_int k = 2 powi k"
    by (rule powr_real_of_int') simp_all
  have "(2::real) powr real_of_int (k + 1) = 2 powi (k + 1)"
    by (rule powr_real_of_int') simp_all
  then have b: "(2::real) powr (real_of_int k + 1) = 2 powi (k + 1)" by simp
  show ?thesis
    using assms x by (simp add: floor_log_eq_powr_iff a b)
qed

lemma f64_eval:
  assumes "2 powi k \<le> \<bar>x\<bar>" "\<bar>x\<bar> < 2 powi (k + 1)" "- 1022 \<le> k"
  shows "f64 x = of_int (round_half_even (x / 2 powi (k - 52))) * 2 powi (k - 52)"
proof -
  have "0 < (2::real) powi k" by (rule zero_less_power_int) simp
  with assms(1) have "0 < \<bar>x\<bar>" by linarith
  then have "x \<noteq> 0" by simp
  moreover have "\<lfloor>log 2 \<bar>x\<bar>\<rfloor> = k" using assms(1,2) by (rule floor_log2_eq)
  moreover have "max (k - 52) (- 1074) = k - 52" using assms(3) by simp
  ultimately show ?thesis by (simp add: f64_def Let_def)
qed

lemma f64_0: "f64 0 = 0" by (simp add: f64_def)

lemma f64_18: "f64 18 = 18"
  by (subst f64_eval [where k = 4]) (simp_all add: round_half_even_def power_int_minus)


lemma f64_90: "f64 90 = 90"
  by (subst f64_eval [where k = 6]) (simp_all add: round_half_even_def power_int_minus)

lemma f64_10: "f64 10 = 10"
  by (subst f64_eval [where k = 3]) (simp_all add: round_half_even_def power_int_minus)

lemma to_celsius_32: "to_celsius 32 = 0"
  by (simp add: to_celsius_def fsub_def fmul_def fdiv_def f64_0)

lemma to_celsius_50: "to_celsius 50 = 10"
  by (simp add: to_celsius_def fsub_def fmul_def fdiv_def f64_18 f64_90 f64_10)

lemma f64_close: "\<bar>f64 x - x\<bar> \<le> (\<bar>x\<bar> + 1) / 2 ^ 53"
proof (cases "x = 0")
  case True
  then show ?thesis by (simp add: f64_def)
next
  case False
  define m :: int where "m = - 1074"
  define e where "e = max (\<lfloor>log 2 \<bar>x\<bar>\<rfloor> - 52) m"
  define y where "y = x / 2 powi e"
  have pe: "0 < (2::real) powi e" by (rule zero_less_power_int) simp
  have fx: "f64 x = of_int (round_half_even y) * 2 powi e"
    using False unfolding f64_def e_def y_def m_def Let_def by simp
  have xy: "x = y * 2 powi e" using pe by (simp add: y_def)
  have "f64 x - x = (of_int (round_half_even y) - y) * 2 powi e"
  proof -
    have "(of_int (round_half_even y) - y) * 2 powi e =
          of_int (round_half_even y) * 2 powi e - y * 2 powi e"
      by (rule left_diff_distrib)
    then show ?thesis using fx xy by simp
  qed
  then have "\<bar>f64 x - x\<bar> = \<bar>of_int (round_half_even y) - y\<bar> * 2 powi e"
    using pe by (simp add: abs_mult)
  also have "\<dots> \<le> 1 / 2 * 2 powi e"
    using pe round_half_even_close [of y] by (intro mult_right_mono) simp_all
  finally have 1: "\<bar>f64 x - x\<bar> \<le> 2 powi e / 2" by simp
  have ax: "0 < \<bar>x\<bar>" using False by simp
  have "(2::real) powi \<lfloor>log 2 \<bar>x\<bar>\<rfloor> = 2 powr real_of_int \<lfloor>log 2 \<bar>x\<bar>\<rfloor>"
    by (rule powr_real_of_int' [symmetric]) simp_all
  also have "\<dots> \<le> 2 powr log 2 \<bar>x\<bar>"
    by (rule powr_mono) simp_all
  also have "\<dots> = \<bar>x\<bar>" using ax by simp
  finally have l: "(2::real) powi \<lfloor>log 2 \<bar>x\<bar>\<rfloor> \<le> \<bar>x\<bar>" .
  have p52: "(2::real) powi (- 52) = 1 / 2 ^ 52"
    by (simp add: inverse_eq_divide)
  have "(2::real) powi e \<le> (\<bar>x\<bar> + 1) / 2 ^ 52"
  proof (cases "\<lfloor>log 2 \<bar>x\<bar>\<rfloor> - 52 \<le> m")
    case True
    then have "e = m" by (simp add: e_def)
    moreover have "m \<le> - 52" by (simp add: m_def)
    ultimately have "(2::real) powi e \<le> 2 powi (- 52)"
      by (intro power_int_increasing) simp_all
    also have "\<dots> \<le> (\<bar>x\<bar> + 1) / 2 ^ 52"
      unfolding p52 by (intro divide_right_mono) simp_all
    finally show ?thesis .
  next
    case False
    then have "e = \<lfloor>log 2 \<bar>x\<bar>\<rfloor> - 52" by (simp add: e_def)
    then have "(2::real) powi e = 2 powi \<lfloor>log 2 \<bar>x\<bar>\<rfloor> / 2 ^ 52"
      by (simp add: power_int_diff)
    also have "\<dots> \<le> (\<bar>x\<bar> + 1) / 2 ^ 52"
      using l by (intro divide_right_mono) simp_all
    finally show ?thesis .
  qed
  with 1 show ?thesis by simp
qed

lemma f64_near:
  assumes "\<bar>x\<bar> + 1 \<le> N"
  shows "\<bar>f64 x - x\<bar> \<le> N / 9007199254740992"
proof -
  have "\<bar>f64 x - x\<bar> \<le> (\<bar>x\<bar> + 1) / 9007199254740992"
    using f64_close [of x] by simp
  also have "\<dots> \<le> N / 9007199254740992"
    using assms by (rule divide_right_mono) simp
  finally show ?thesis .
qed

lemma to_celsius_steps:
  fixes f :: real
  defines "F \<equiv> f - 32"
  defines "M \<equiv> \<bar>f - 32\<bar> + 1"
  shows "\<bar>to_celsius f - F * 5 / 9\<bar> \<le> 4 * M / 9007199254740992" and "\<bar>to_celsius f\<bar> \<le> M"
proof -
  define a where "a = f64 F"
  define b where "b = f64 (a * 5)"
  define c where "c = f64 (b / 9)"
  have tc: "to_celsius f = c"
    unfolding to_celsius_def fsub_def fmul_def fdiv_def a_def b_def c_def F_def ..
  have M: "1 \<le> M" "\<bar>F\<bar> + 1 = M" unfolding M_def F_def by simp_all
  have a0: "\<bar>a - F\<bar> \<le> M / 9007199254740992"
    unfolding a_def using M by (intro f64_near) simp
  have a2: "\<bar>a\<bar> \<le> 2 * M" using a0 M by linarith
  have "\<bar>a * 5\<bar> = 5 * \<bar>a\<bar>" by (simp add: abs_mult)
  with a2 M have "\<bar>a * 5\<bar> + 1 \<le> 11 * M" by linarith
  then have b0: "\<bar>b - a * 5\<bar> \<le> 11 * M / 9007199254740992"
    unfolding b_def by (rule f64_near)
  have b1: "\<bar>b - F * 5\<bar> \<le> 16 * M / 9007199254740992" using b0 a0 by linarith
  have b2: "\<bar>b\<bar> \<le> 6 * M" using b1 M by linarith
  have "\<bar>b / 9\<bar> = \<bar>b\<bar> / 9" by simp
  with b2 M have "\<bar>b / 9\<bar> + 1 \<le> 2 * M" by linarith
  then have c0: "\<bar>c - b / 9\<bar> \<le> 2 * M / 9007199254740992"
    unfolding c_def by (rule f64_near)
  have c1: "\<bar>c - F * 5 / 9\<bar> \<le> 4 * M / 9007199254740992" using c0 b1 M by linarith
  have c2: "\<bar>c\<bar> \<le> M" using c1 M by linarith
  show "\<bar>to_celsius f - F * 5 / 9\<bar> \<le> 4 * M / 9007199254740992"
    unfolding tc by (rule c1)
  show "\<bar>to_celsius f\<bar> \<le> M"
    unfolding tc by (rule c2)
qed

lemma round_trip_close:
  "\<bar>celsius_to_fahrenheit (to_celsius f) - f\<bar> \<le> (\<bar>f - 32\<bar> + 1) / 2 ^ 47"
proof -
  define F where "F = f - 32"
  define M where "M = \<bar>f - 32\<bar> + 1"
  define c where "c = to_celsius f"
  define d where "d = f64 (c * 9)"
  define g where "g = f64 (d / 5)"
  define h where "h = f64 (g + 32)"
  have rt: "celsius_to_fahrenheit (to_celsius f) = h"
    unfolding celsius_to_fahrenheit_def fadd_def fmul_def fdiv_def c_def d_def g_def h_def ..
  have M: "1 \<le> M" "\<bar>F\<bar> + 1 = M" unfolding M_def F_def by simp_all
  have c1: "\<bar>c - F * 5 / 9\<bar> \<le> 4 * M / 9007199254740992"
    unfolding c_def F_def M_def by (rule to_celsius_steps(1))
  have c2: "\<bar>c\<bar> \<le> M"
    unfolding c_def M_def by (rule to_celsius_steps(2))
  have "\<bar>c * 9\<bar> = 9 * \<bar>c\<bar>" by (simp add: abs_mult)
  with c2 M have "\<bar>c * 9\<bar> + 1 \<le> 10 * M" by linarith
  then have d0: "\<bar>d - c * 9\<bar> \<le> 10 * M / 9007199254740992"
    unfolding d_def by (rule f64_near)
  have d1: "\<bar>d - F * 5\<bar> \<le> 46 * M / 9007199254740992" using d0 c1 M by linarith
  have d2: "\<bar>d\<bar> \<le> 6 * M" using d1 M by linarith
  have "\<bar>d / 5\<bar> = \<bar>d\<bar> / 5" by simp
  with d2 M have "\<bar>d / 5\<bar> + 1 \<le> 3 * M" by linarith
  then have g0: "\<bar>g - d / 5\<bar> \<le> 3 * M / 9007199254740992"
    unfolding g_def by (rule f64_near)
  have g1: "\<bar>g - F\<bar> \<le> 13 * M / 9007199254740992" using g0 d1 M by linarith
  have g2: "\<bar>g\<bar> \<le> 2 * M" using g1 M by linarith
  have "\<bar>g + 32\<bar> + 1 \<le> 35 * M" using g2 M by linarith
  then have h0: "\<bar>h - (g + 32)\<bar> \<le> 35 * M / 9007199254740992"
    unfolding h_def by (rule f64_near)
  have "\<bar>h - (F + 32)\<bar> \<le> 64 * M / 9007199254740992" using h0 g1 M by linarith
  moreover have "F + 32 = f" by (simp add: F_def)
  moreover have "64 * M / 9007199254740992 = M / 2 ^ 47" by simp
  ultimately show ?thesis unfolding rt M_def by simp
qed

lemma f64_tiny_minus_32: "f64 (1 / 2 ^ 60 - 32) = - 32"
  by (subst f64_eval [where k = 4]) (simp_all add: round_half_even_def)

lemma f64_m160: "f64 (- 160) = - 160"
  by (subst f64_eval [where k = 7]) (simp_all add: round_half_even_def)

lemma f64_m160_9: "f64 (- 160 / 9) = - 5003999585967218 / 2 ^ 48"
  by (subst f64_eval [where k = 4]) (simp_all add: round_half_even_def)

lemma f64_back: "f64 (- 5003999585967218 / 2 ^ 48 * 9) = - 160"
  by (subst f64_eval [where k = 7]) (simp_all add: round_half_even_def)

lemma f64_m32: "f64 (- 32) = - 32"
  by (subst f64_eval [where k = 5]) (simp_all add: round_half_even_def)

lemma to_celsius_tiny: "to_celsius (1 / 2 ^ 60) = - 5003999585967218 / 2 ^ 48"
proof -
  have "fsub (1 / 2 ^ 60) 32 = - 32"
    unfolding fsub_def by (rule f64_tiny_minus_32)
  moreover have "fmul (- 32) 5 = - 160"
    unfolding fmul_def using f64_m160 by simp
  moreover have "fdiv (- 160) 9 = - 5003999585967218 / 2 ^ 48"
    unfolding fdiv_def by (rule f64_m160_9)
  ultimately show ?thesis unfolding to_celsius_def by (simp only:)
qed

lemma round_trip_tiny: "celsius_to_fahrenheit (to_celsius (1 / 2 ^ 60)) = 0"
proof -
  have "fmul (- 5003999585967218 / 2 ^ 48) 9 = - 160"
    unfolding fmul_def by (rule f64_back)
  moreover have "fdiv (- 160) 5 = - 32"
    unfolding fdiv_def using f64_m32 by simp
  moreover have "fadd (- 32) 32 = 0"
    unfolding fadd_def using f64_0 by simp
  ultimately show ?thesis unfolding to_celsius_tiny celsius_to_fahrenheit_def by (simp only:)
qed

lemma to_celsius_10_neg: "to_celsius 10 < 0"
proof -
  have "\<bar>to_celsius 10 - (10 - 32) * 5 / 9\<bar> \<le> 4 * (\<bar>10 - 32\<bar> + 1) / 9007199254740992"
    by (rule to_celsius_steps(1))
  moreover have "4 * (\<bar>10 - 32\<bar> + 1) / 9007199254740992 \<le> (1::real)" by simp
  moreover have "(10 - 32) * 5 / 9 < (- 2 :: real)" by simp
  ultimately show ?thesis by linarith
qed

lemma f64_32: "f64 32 = 32"
  by (subst f64_eval [where k = 5]) (simp_all add: round_half_even_def)

lemma f64_50: "f64 50 = 50"
  by (subst f64_eval [where k = 5]) (simp_all add: round_half_even_def)

lemma f64_tiny: "f64 (1 / 2 ^ 60) = 1 / 2 ^ 60"
  by (subst f64_eval [where k = "- 60"]) (simp_all add: round_half_even_def)

lemma round_trip_32: "celsius_to_fahrenheit (to_celsius 32) = 32"
  by (simp add: to_celsius_32 celsius_to_fahrenheit_def fadd_def fmul_def fdiv_def f64_0 f64_32)

lemma round_trip_50: "celsius_to_fahrenheit (to_celsius 50) = 50"
  by (simp add: to_celsius_50 celsius_to_fahrenheit_def fadd_def fmul_def fdiv_def
      f64_90 f64_18 f64_50)


section \<open>The two fills\<close>

lemmas pipeline_defs =
  preprocess_temperature_data_def assign_state_def fillna_state_def replace_day_def
  correct_year_def set_year_def convert_temperature_def correct_years_def ffill_def
  check_year_def replace_cell_def fillna_def dict_get_def city_to_state_def

lemma first_valid_None_iff: "first_valid cs = None \<longleftrightarrow> (\<forall>c\<in>set cs. c = None)"
  by (induction cs rule: first_valid.induct) auto

lemma first_valid_snoc:
  "first_valid (cs @ [c]) = (case first_valid cs of None \<Rightarrow> c | Some v \<Rightarrow> Some v)"
proof (induction cs rule: first_valid.induct)
  case 1
  show ?case by (cases c) simp_all
qed simp_all

lemma first_valid_in: "first_valid cs = Some v \<Longrightarrow> Some v \<in> set cs"
  by (induction cs rule: first_valid.induct) auto

lemma nearest_preceding_Cons_Suc:
  "nearest_preceding (c # cs) (Suc i) =
     (case nearest_preceding cs i of None \<Rightarrow> c | Some v \<Rightarrow> Some v)"
  by (simp add: nearest_preceding_def first_valid_snoc)

lemma nearest_preceding_Cons_0: "nearest_preceding (c # cs) 0 = c"
  by (cases c) (simp_all add: nearest_preceding_def)

lemma length_ffill_from: "length (ffill_from p cs) = length cs"
  by (induction p cs rule: ffill_from.induct) auto

lemma length_bfill: "length (bfill cs) = length cs"
  by (induction cs rule: bfill.induct) auto

lemma bfill_head: "(case bfill cs of [] \<Rightarrow> None | c # _ \<Rightarrow> c) = first_valid cs"
  by (induction cs rule: bfill.induct) auto

lemma first_valid_ffill_from_None: "first_valid (ffill_from None cs) = first_valid cs"
  by (induction cs rule: first_valid.induct) auto

lemma bfill_ffill_from_nth:
  "i < length cs \<Longrightarrow>
   bfill (ffill_from p cs) ! i =
     (case nearest_preceding cs i of
        Some v \<Rightarrow> Some v
      | None \<Rightarrow> (case p of Some w \<Rightarrow> Some w | None \<Rightarrow> nearest_following cs i))"
proof (induction cs arbitrary: p i)
  case Nil
  then show ?case by simp
next
  case (Cons c cs)
  show ?case
  proof (cases i)
    case 0
    show ?thesis
    proof (cases c)
      case None
      then show ?thesis using 0
        by (cases p) (simp_all add: nearest_preceding_Cons_0 nearest_following_def
            bfill_head first_valid_ffill_from_None)
    next
      case (Some v)
      then show ?thesis using 0 by (simp add: nearest_preceding_Cons_0)
    qed
  next
    case (Suc j)
    then have j: "j < length cs" using Cons.prems by simp
    show ?thesis
    proof (cases c)
      case None
      then show ?thesis using Suc Cons.IH [OF j, of p]
        by (cases p) (simp_all add: nearest_preceding_Cons_Suc nearest_following_def split: option.splits)
    next
      case (Some v)
      then show ?thesis using Suc Cons.IH [OF j, of "Some v"]
        by (simp add: nearest_preceding_Cons_Suc nearest_following_def split: option.splits)
    qed
  qed
qed

lemma length_correct_years: "length (correct_years ys) = length ys"
  by (simp add: correct_years_def ffill_def length_bfill length_ffill_from)

lemma preprocess_rows:
  "preprocess_temperature_data data cities =
     map (\<lambda>(r, y). clean_row (city_to_state cities) r y) (zip data (correct_years (map Year data)))"
  by (simp add: preprocess_temperature_data_def assign_state_def fillna_state_def replace_day_def
      correct_year_def set_year_def convert_temperature_def clean_row_def o_def zip_map1
      split_def)

lemma length_preprocess: "length (preprocess_temperature_data data cities) = length data"
  by (simp add: preprocess_rows length_correct_years)

lemma preprocess_nth:
  "i < length data \<Longrightarrow>
   preprocess_temperature_data data cities ! i =
     clean_row (city_to_state cities) (data ! i) (correct_years (map Year data) ! i)"
  by (simp add: preprocess_rows length_correct_years)

lemma correct_years_nth:
  "i < length ys \<Longrightarrow>
   correct_years ys ! i =
     (case nearest_preceding (map check_year ys) i of
        Some y \<Rightarrow> Some y
      | None \<Rightarrow> nearest_following (map check_year ys) i)"
  using bfill_ffill_from_nth [of i "map check_year ys" None]
  by (simp add: correct_years_def ffill_def split: option.splits)

lemma check_year_Some: "check_year c = Some y \<Longrightarrow> c = Some y \<and> 1900 \<le> y \<and> y \<le> 2024"
  by (auto simp: check_year_def split: option.splits if_splits)

lemma nearest_preceding_in: "nearest_preceding cs i = Some v \<Longrightarrow> Some v \<in> set cs"
  unfolding nearest_preceding_def by (auto dest!: first_valid_in in_set_takeD)

lemma nearest_following_in: "nearest_following cs i = Some v \<Longrightarrow> Some v \<in> set cs"
  unfolding nearest_following_def by (auto dest!: first_valid_in in_set_dropD)

lemma correct_years_valid:
  assumes "i < length ys" "correct_years ys ! i = Some y"
  shows "Some y \<in> set ys \<and> 1900 \<le> y \<and> y \<le> 2024"
proof -
  have "Some y \<in> set (map check_year ys)"
    using assms by (auto simp: correct_years_nth split: option.splits
        dest: nearest_preceding_in nearest_following_in)
  then show ?thesis by (auto dest!: check_year_Some sym [of "Some y"])
qed

lemma correct_years_filled:
  assumes "i < length ys" "Some y \<in> set ys" "1900 \<le> y" "y \<le> 2024"
  shows "correct_years ys ! i \<noteq> None"
proof
  assume "correct_years ys ! i = None"
  then have p: "nearest_preceding (map check_year ys) i = None"
    and f: "nearest_following (map check_year ys) i = None"
    using assms(1) by (auto simp: correct_years_nth split: option.splits)
  have "\<forall>c \<in> set (take (Suc i) (map check_year ys)). c = None"
    using p by (simp add: nearest_preceding_def first_valid_None_iff)
  moreover have "\<forall>c \<in> set (drop (Suc i) (map check_year ys)). c = None"
    using f by (simp add: nearest_following_def first_valid_None_iff)
  ultimately have "\<forall>c \<in> set (take (Suc i) (map check_year ys) @ drop (Suc i) (map check_year ys)). c = None"
    unfolding set_append by blast
  then have "\<forall>c \<in> set (map check_year ys). c = None"
    unfolding append_take_drop_id .
  moreover have "check_year (Some y) = Some y" using assms by (simp add: check_year_def)
  ultimately show False using assms(2) by force
qed

lemma ffill_from_all_Some: "\<forall>c\<in>set cs. c \<noteq> None \<Longrightarrow> ffill_from p cs = cs"
  by (induction p cs rule: ffill_from.induct) auto

lemma bfill_all_Some: "\<forall>c\<in>set cs. c \<noteq> None \<Longrightarrow> bfill cs = cs"
  by (induction cs rule: bfill.induct) auto

lemma ffill_from_all_None: "\<forall>c\<in>set cs. c = None \<Longrightarrow> ffill_from None cs = cs"
  by (induction cs) auto

lemma bfill_all_None: "\<forall>c\<in>set cs. c = None \<Longrightarrow> bfill cs = cs"
  by (induction cs) (auto split: list.splits)

lemma correct_years_fixed:
  assumes "(\<forall>c\<in>set cs. c = None) \<or> (\<forall>c\<in>set cs. \<exists>y. c = Some y \<and> 1900 \<le> y \<and> y \<le> 2024)"
  shows "correct_years cs = cs"
proof -
  have "\<forall>c\<in>set cs. check_year c = c"
    using assms by (auto simp: check_year_def)
  then have m: "map check_year cs = cs" by (simp add: map_idI)
  from assms show ?thesis
  proof
    assume "\<forall>c\<in>set cs. c = None"
    then show ?thesis
      by (simp add: correct_years_def ffill_def m ffill_from_all_None bfill_all_None)
  next
    assume "\<forall>c\<in>set cs. \<exists>y. c = Some y \<and> 1900 \<le> y \<and> y \<le> 2024"
    then have "\<forall>c\<in>set cs. c \<noteq> None" by auto
    then show ?thesis
      by (simp add: correct_years_def ffill_def m ffill_from_all_Some bfill_all_Some)
  qed
qed

lemma correct_years_shape:
  "(\<forall>c\<in>set (correct_years ys). c = None) \<or>
   (\<forall>c\<in>set (correct_years ys). \<exists>y. c = Some y \<and> 1900 \<le> y \<and> y \<le> 2024)"
proof (cases "\<exists>y. Some y \<in> set ys \<and> 1900 \<le> y \<and> y \<le> 2024")
  case True
  then obtain y where y: "Some y \<in> set ys" "1900 \<le> y" "y \<le> 2024" by blast
  have "\<exists>z. c = Some z \<and> 1900 \<le> z \<and> z \<le> 2024" if "c \<in> set (correct_years ys)" for c
  proof -
    from that obtain i where i: "i < length ys" "correct_years ys ! i = c"
      by (auto simp: in_set_conv_nth length_correct_years)
    with correct_years_filled [OF i(1) y] obtain z where "c = Some z" by auto
    with i correct_years_valid [of i ys z] show ?thesis by simp
  qed
  then show ?thesis by blast
next
  case False
  have "c = None" if "c \<in> set (correct_years ys)" for c
  proof (cases c)
    case (Some z)
    from that obtain i where i: "i < length ys" "correct_years ys ! i = c"
      by (auto simp: in_set_conv_nth length_correct_years)
    with Some correct_years_valid [of i ys z] False show ?thesis by auto
  qed simp
  then show ?thesis by blast
qed

lemma correct_years_idem: "correct_years (correct_years ys) = correct_years ys"
  by (rule correct_years_fixed) (rule correct_years_shape)

lemma map_Year_preprocess:
  "map Year (preprocess_temperature_data data cities) = correct_years (map Year data)"
  by (rule nth_equalityI) (simp_all add: length_preprocess length_correct_years preprocess_nth clean_row_def)

lemma fillna_idem: "fillna v (dict_get d k (fillna v c)) = fillna v (dict_get d k c)"
  by (simp add: fillna_def dict_get_def split: option.splits)

lemma dict_get_idem: "dict_get d k (dict_get d k c) = dict_get d k c"
  by (simp add: dict_get_def split: option.splits)

lemma replace_cell_idem: "replace_cell 0 1 (replace_cell 0 1 x) = replace_cell 0 1 x"
  by (simp add: replace_cell_def)

lemma preprocess_twice:
  "preprocess_temperature_data (preprocess_temperature_data data cities) cities =
     convert_temperature (preprocess_temperature_data data cities)"
proof (rule nth_equalityI)
  show "length (preprocess_temperature_data (preprocess_temperature_data data cities) cities) =
        length (convert_temperature (preprocess_temperature_data data cities))"
    by (simp add: length_preprocess convert_temperature_def)
next
  fix i
  assume "i < length (preprocess_temperature_data (preprocess_temperature_data data cities) cities)"
  then have i: "i < length data" by (simp add: length_preprocess)
  let ?out = "preprocess_temperature_data data cities"
  have y: "correct_years (map Year ?out) ! i = Year (?out ! i)"
    using i by (simp add: map_Year_preprocess correct_years_idem length_correct_years
        preprocess_nth clean_row_def)
  have "preprocess_temperature_data ?out cities ! i =
          clean_row (city_to_state cities) (?out ! i) (Year (?out ! i))"
    using i by (simp add: preprocess_nth [of i ?out] length_preprocess y)
  also have "\<dots> = (?out ! i)\<lparr>AvgTemperature := to_celsius (AvgTemperature (?out ! i))\<rparr>"
    using i by (simp add: preprocess_nth clean_row_def fillna_idem dict_get_idem replace_cell_idem)
  also have "\<dots> = convert_temperature ?out ! i"
    using i by (simp add: convert_temperature_def length_preprocess)
  finally show "preprocess_temperature_data ?out cities ! i = convert_temperature ?out ! i" .
qed


section \<open>Properties of the cleaning pipeline\<close>

text \<open>
  Claim C1. If every \<open>Day\<close> of the input table is 0 or lies in 1..31, and at least one
  row has a \<open>Year\<close> in 1900..2024, then every row of the cleaned table has a non-null
  \<open>State\<close>, a \<open>Day\<close> in 1..31 and a \<open>Year\<close> in 1900..2024.
\<close>
theorem cleaned_records_in_range:
  assumes days: "\<forall>r\<in>set data. Day r = 0 \<or> (1 \<le> Day r \<and> Day r \<le> 31)"
    and year: "\<exists>r\<in>set data. \<exists>y. Year r = Some y \<and> 1900 \<le> y \<and> y \<le> 2024"
  shows "\<forall>r\<in>set (preprocess_temperature_data data cities).
           State r \<noteq> None \<and> 1 \<le> Day r \<and> Day r \<le> 31 \<and>
           (\<exists>y. Year r = Some y \<and> 1900 \<le> y \<and> y \<le> 2024)"
proof
  fix r
  assume "r \<in> set (preprocess_temperature_data data cities)"
  then obtain i where i: "i < length data"
    and r: "r = clean_row (city_to_state cities) (data ! i) (correct_years (map Year data) ! i)"
    by (auto simp: in_set_conv_nth length_preprocess preprocess_nth)
  from year obtain y where y: "Some y \<in> set (map Year data)" "1900 \<le> y" "y \<le> 2024"
    by force
  have s: "State r \<noteq> None"
    by (simp add: r clean_row_def fillna_def split: option.splits)
  have "Day (data ! i) = 0 \<or> (1 \<le> Day (data ! i) \<and> Day (data ! i) \<le> 31)"
    using days i by simp
  then have d: "1 \<le> Day r \<and> Day r \<le> 31"
    by (auto simp: r clean_row_def replace_cell_def)
  have "correct_years (map Year data) ! i \<noteq> None"
    using correct_years_filled [of i "map Year data" y] i y by simp
  then obtain z where z: "correct_years (map Year data) ! i = Some z" by auto
  then have "1900 \<le> z \<and> z \<le> 2024"
    using correct_years_valid [of i "map Year data" z] i by simp
  then have "\<exists>y. Year r = Some y \<and> 1900 \<le> y \<and> y \<le> 2024"
    by (simp add: r clean_row_def z)
  with s d show "State r \<noteq> None \<and> 1 \<le> Day r \<and> Day r \<le> 31 \<and>
           (\<exists>y. Year r = Some y \<and> 1900 \<le> y \<and> y \<le> 2024)" by simp
qed

text \<open>The two-row sample table meets both conditions of C1: a zero day, one valid year.\<close>
theorem cleaned_records_in_range_witness:
  "Day springfield = 0 \<and> Day columbus = 15 \<and> Year columbus = Some 2005 \<and>
   list_all (\<lambda>r. State r \<noteq> None \<and> 1 \<le> Day r \<and> Day r \<le> 31 \<and>
                 (\<exists>y. Year r = Some y \<and> 1900 \<le> y \<and> y \<le> 2024))
     (preprocess_temperature_data [springfield, columbus] illinois)"
proof -
  have d: "\<forall>r\<in>set [springfield, columbus]. Day r = 0 \<or> (1 \<le> Day r \<and> Day r \<le> 31)"
    by (simp add: springfield_def columbus_def)
  have y: "\<exists>r\<in>set [springfield, columbus]. \<exists>y. Year r = Some y \<and> 1900 \<le> y \<and> y \<le> 2024"
    by (simp add: springfield_def columbus_def)
  have "Day springfield = 0 \<and> Day columbus = 15 \<and> Year columbus = Some 2005"
    by (simp add: springfield_def columbus_def)
  with cleaned_records_in_range [OF d y, of illinois] show ?thesis
    unfolding list_all_iff by blast
qed

text \<open>
  Claim C2 says that a city that is a key of the reference table always receives the
  state of the reference table. The reference is read from a file as well, and its
  \<open>state\<close> cell may be null; \<^verbatim>\<open>fillna("Unknown")\<close> runs after the lookup, on the
  whole column. Here Columbus is a key whose referenced state is null, the row carries
  Ohio, and the cleaned row carries neither: it is Unknown.
\<close>
theorem state_resolution_null_reference:
  "city_to_state stateless (City columbus) = Some None \<and>
   State columbus = Some ''Ohio'' \<and>
   State (preprocess_temperature_data [columbus] stateless ! 0) = Some ''Unknown''"
  by (simp add: pipeline_defs columbus_def stateless_def)

text \<open>
  Claim C2, as the code has it. For every row: if its city is a key of the reference
  table with a non-null state, the cleaned state is that state, whatever the row had; if
  its city is a key whose referenced state is null, the cleaned state is Unknown; if its
  city is not a key, the cleaned state is Unknown when the row's state is null and the
  row's own state otherwise.
\<close>
theorem state_resolution:
  "i < length data \<Longrightarrow>
   State (preprocess_temperature_data data cities ! i) =
     (case city_to_state cities (City (data ! i)) of
        Some (Some s) \<Rightarrow> Some s
      | Some None \<Rightarrow> Some ''Unknown''
      | None \<Rightarrow> (case State (data ! i) of None \<Rightarrow> Some ''Unknown'' | Some s \<Rightarrow> Some s))"
  by (simp add: preprocess_nth clean_row_def fillna_def dict_get_def split: option.splits)

text \<open>Both rows of the sample: Springfield is taken from the reference, Columbus keeps Ohio.\<close>
theorem state_resolution_witness:
  "(0::nat) < length [springfield, columbus] \<and>
   State (preprocess_temperature_data [springfield, columbus] illinois ! 0) = Some ''Illinois'' \<and>
   (1::nat) < length [springfield, columbus] \<and>
   State (preprocess_temperature_data [springfield, columbus] illinois ! 1) = Some ''Ohio''"
  using state_resolution [of 0 "[springfield, columbus]" illinois]
    state_resolution [of 1 "[springfield, columbus]" illinois]
  by (simp add: city_to_state_def springfield_def columbus_def illinois_def)

text \<open>
  Claim C3. The \<open>Year\<close> column of the cleaned table is the corrected column of the
  input. The correction keeps the length; the check nulls exactly the cells that are not
  a year in 1900..2024; after both fills a cell holds the nearest valid year at or above
  its position, and when there is none, the nearest valid year below it. The column
  null, 2005, null, null, 2010 fills to 2005, 2005, 2005, 2005, 2010.
\<close>
theorem year_correction:
  "map Year (preprocess_temperature_data data cities) = correct_years (map Year data) \<and>
   length (correct_years ys) = length ys \<and>
   (\<forall>i<length ys.
      map check_year ys ! i =
        (if \<exists>y. ys ! i = Some y \<and> 1900 \<le> y \<and> y \<le> 2024 then ys ! i else None) \<and>
      correct_years ys ! i =
        (case nearest_preceding (map check_year ys) i of
           Some y \<Rightarrow> Some y
         | None \<Rightarrow> nearest_following (map check_year ys) i)) \<and>
   correct_years [None, Some 2005, None, None, Some 2010] =
     [Some 2005, Some 2005, Some 2005, Some 2005, Some 2010]"
proof -
  have "map check_year ys ! i =
        (if \<exists>y. ys ! i = Some y \<and> 1900 \<le> y \<and> y \<le> 2024 then ys ! i else None)"
    if "i < length ys" for i
    using that by (auto simp: check_year_def split: option.splits)
  moreover have "correct_years [None, Some 2005, None, None, Some 2010] =
     [Some 2005, Some 2005, Some 2005, Some 2005, Some 2010]"
    by (simp add: correct_years_def ffill_def check_year_def)
  ultimately show ?thesis
    by (simp add: map_Year_preprocess length_correct_years correct_years_nth)
qed

text \<open>A column whose first and last year are out of range: both take the year between them.\<close>
theorem year_correction_witness:
  "correct_years [Some 1776, Some 2005, Some 3000] ! 0 = Some 2005 \<and>
   correct_years [Some 1776, Some 2005, Some 3000] ! 2 = Some 2005 \<and>
   map check_year [Some 1776, Some 2005, Some 3000] = [None, Some 2005, None] \<and>
   map Year (preprocess_temperature_data [springfield, columbus] illinois) = [Some 2005, Some 2005]"
  using year_correction [of "[springfield, columbus]" illinois "[Some 1776, Some 2005, Some 3000]"]
  by (simp add: nearest_preceding_def nearest_following_def check_year_def
      correct_years_def ffill_def springfield_def columbus_def All_less_Suc numeral_3_eq_3)

text \<open>
  Claim C4 says that cleaning a cleaned table changes nothing. The sample row has a valid
  year and holds 50 degrees Fahrenheit; the first run turns the 50 into 10, and the
  second run converts the 10 again, to a negative number.
\<close>
theorem second_run_changes_temperature:
  "Year columbus = Some 2005 \<and>
   preprocess_temperature_data [columbus] illinois = [columbus\<lparr>AvgTemperature := 10\<rparr>] \<and>
   preprocess_temperature_data (preprocess_temperature_data [columbus] illinois) illinois
     \<noteq> preprocess_temperature_data [columbus] illinois"
proof -
  have 1: "preprocess_temperature_data [columbus] illinois = [columbus\<lparr>AvgTemperature := 10\<rparr>]"
    by (simp add: pipeline_defs to_celsius_50 columbus_def illinois_def)
  have "preprocess_temperature_data [columbus\<lparr>AvgTemperature := 10\<rparr>] illinois
          = [columbus\<lparr>AvgTemperature := to_celsius 10\<rparr>]"
    by (simp add: pipeline_defs columbus_def illinois_def)
  moreover have "to_celsius 10 \<noteq> 10" using to_celsius_10_neg by simp
  ultimately have "preprocess_temperature_data [columbus\<lparr>AvgTemperature := 10\<rparr>] illinois
          \<noteq> [columbus\<lparr>AvgTemperature := 10\<rparr>]"
    by (simp add: columbus_def)
  with 1 show ?thesis by (simp add: columbus_def)
qed

text \<open>
  Claim C4, as the code has it. For a table with at least one year in 1900..2024, the
  first run leaves no null year, and cleaning the cleaned table again, with the same
  city table, leaves \<open>State\<close>, \<open>Day\<close>, \<open>Year\<close> and every other column as they are and
  applies the conversion to the temperature column once more.
\<close>
theorem second_run:
  assumes "\<exists>r\<in>set data. \<exists>y. Year r = Some y \<and> 1900 \<le> y \<and> y \<le> 2024"
  shows "list_all (\<lambda>r. \<exists>y. Year r = Some y \<and> 1900 \<le> y \<and> y \<le> 2024)
           (preprocess_temperature_data data cities) \<and>
         preprocess_temperature_data (preprocess_temperature_data data cities) cities =
           map (\<lambda>r. r\<lparr>AvgTemperature := to_celsius (AvgTemperature r)\<rparr>)
             (preprocess_temperature_data data cities)"
proof -
  from assms obtain y where y: "Some y \<in> set (map Year data)" "1900 \<le> y" "y \<le> 2024"
    by force
  have "\<exists>z. Year r = Some z \<and> 1900 \<le> z \<and> z \<le> 2024"
    if "r \<in> set (preprocess_temperature_data data cities)" for r
  proof -
    from that obtain i where i: "i < length data"
      and r: "r = clean_row (city_to_state cities) (data ! i) (correct_years (map Year data) ! i)"
      by (auto simp: in_set_conv_nth length_preprocess preprocess_nth)
    have "correct_years (map Year data) ! i \<noteq> None"
      using correct_years_filled [of i "map Year data" y] i y by simp
    then obtain z where z: "correct_years (map Year data) ! i = Some z" by auto
    then have "1900 \<le> z \<and> z \<le> 2024"
      using correct_years_valid [of i "map Year data" z] i by simp
    then show ?thesis by (simp add: r clean_row_def z)
  qed
  then show ?thesis
    by (simp add: list_all_iff preprocess_twice convert_temperature_def)
qed

text \<open>The two-row sample: its second row has the valid year 2005.\<close>
theorem second_run_witness:
  "Year columbus = Some 2005 \<and>
   preprocess_temperature_data
     (preprocess_temperature_data [springfield, columbus] illinois) illinois =
     [springfield\<lparr>State := Some ''Illinois'', Day := 1, Year := Some 2005,
                  AvgTemperature := to_celsius 0\<rparr>,
      columbus\<lparr>AvgTemperature := to_celsius 10\<rparr>]"
proof -
  have "\<exists>r\<in>set [springfield, columbus]. \<exists>y. Year r = Some y \<and> 1900 \<le> y \<and> y \<le> 2024"
    by (simp add: springfield_def columbus_def)
  from second_run [OF this, of illinois] show ?thesis
    by (simp add: pipeline_defs to_celsius_32 to_celsius_50 springfield_def columbus_def
        illinois_def)
qed

text \<open>
  Claim C5 says that the conversion round-trips for every input. The arithmetic is
  floating-point. Two to the power of minus 60 is a float; subtracting 32 from it
  rounds to minus 32, and the way back ends at 0.
\<close>
theorem round_trip_not_exact:
  "f64 (1 / 2 ^ 60) = 1 / 2 ^ 60 \<and>
   to_celsius (1 / 2 ^ 60) = to_celsius 0 \<and>
   celsius_to_fahrenheit (to_celsius (1 / 2 ^ 60)) = 0 \<and>
   celsius_to_fahrenheit (to_celsius (1 / 2 ^ 60)) \<noteq> 1 / 2 ^ 60 \<and>
   map (\<lambda>r. celsius_to_fahrenheit (AvgTemperature r))
     (preprocess_temperature_data [columbus\<lparr>AvgTemperature := 1 / 2 ^ 60\<rparr>] illinois) = [0]"
proof -
  have "fsub 0 32 = - 32" unfolding fsub_def using f64_m32 by simp
  then have "to_celsius 0 = fdiv (fmul (- 32) 5) 9" unfolding to_celsius_def by simp
  moreover have "fsub (1 / 2 ^ 60) 32 = - 32"
    unfolding fsub_def by (rule f64_tiny_minus_32)
  then have "to_celsius (1 / 2 ^ 60) = fdiv (fmul (- 32) 5) 9"
    unfolding to_celsius_def by (simp only:)
  ultimately have eq: "to_celsius (1 / 2 ^ 60) = to_celsius 0" by simp
  have rt: "celsius_to_fahrenheit (to_celsius (1 / 2 ^ 60)) = 0"
    by (rule round_trip_tiny)
  have ne: "celsius_to_fahrenheit (to_celsius (1 / 2 ^ 60)) \<noteq> 1 / 2 ^ 60"
    unfolding rt by simp
  have "map (\<lambda>r. celsius_to_fahrenheit (AvgTemperature r))
     (preprocess_temperature_data [columbus\<lparr>AvgTemperature := 1 / 2 ^ 60\<rparr>] illinois) =
       [celsius_to_fahrenheit (to_celsius (1 / 2 ^ 60))]"
    by (simp add: pipeline_defs columbus_def illinois_def)
  then have m: "map (\<lambda>r. celsius_to_fahrenheit (AvgTemperature r))
     (preprocess_temperature_data [columbus\<lparr>AvgTemperature := 1 / 2 ^ 60\<rparr>] illinois) = [0]"
    unfolding rt .
  from f64_tiny eq rt ne m show ?thesis by blast
qed

text \<open>
  Claim C5, as the code has it. The temperature column of the cleaned table is the
  input column with \<open>(t - 32) * 5 / 9\<close> applied to every cell, each of the three
  operations rounded, with no condition on the cell. Within the range of the floats the
  way back \<open>c * 9 / 5 + 32\<close> recovers the Fahrenheit value up to rounding, with an error
  of at most \<open>(\<bar>f - 32\<bar> + 1) / 2 ^ 47\<close>; it is exact at 32 and at 50, and in exact
  arithmetic it is exact everywhere.
\<close>
theorem unit_conversion:
  "map AvgTemperature (preprocess_temperature_data data cities) =
     map (\<lambda>r. fdiv (fmul (fsub (AvgTemperature r) 32) 5) 9) data \<and>
   (\<bar>f\<bar> \<le> 10 ^ 300 \<longrightarrow>
      \<bar>celsius_to_fahrenheit (to_celsius f) - f\<bar> \<le> (\<bar>f - 32\<bar> + 1) / 2 ^ 47) \<and>
   celsius_to_fahrenheit (to_celsius 32) = 32 \<and>
   celsius_to_fahrenheit (to_celsius 50) = 50 \<and>
   (f - 32) * 5 / 9 * 9 / 5 + 32 = f"
proof -
  have "map AvgTemperature (preprocess_temperature_data data cities) =
     map (\<lambda>r. fdiv (fmul (fsub (AvgTemperature r) 32) 5) 9) data"
    by (rule nth_equalityI)
      (simp_all add: length_preprocess preprocess_nth clean_row_def to_celsius_def)
  moreover have "(f - 32) * 5 / 9 * 9 / 5 + 32 = f" by (simp add: field_simps)
  ultimately show ?thesis
    using round_trip_close [of f] round_trip_32 round_trip_50 by blast
qed

text \<open>At 50 degrees the way back is exact; at two to the minus 60 it is within the bound.\<close>
theorem unit_conversion_witness:
  "\<bar>50 :: real\<bar> \<le> 10 ^ 300 \<and>
   \<bar>celsius_to_fahrenheit (to_celsius 50) - 50\<bar> \<le> (\<bar>50 - 32\<bar> + 1) / 2 ^ 47 \<and>
   \<bar>1 / 2 ^ 60 :: real\<bar> \<le> 10 ^ 300 \<and>
   \<bar>celsius_to_fahrenheit (to_celsius (1 / 2 ^ 60)) - 1 / 2 ^ 60\<bar>
     \<le> (\<bar>1 / 2 ^ 60 - 32\<bar> + 1) / 2 ^ 47"
proof -
  have a: "\<bar>50 :: real\<bar> \<le> 10 ^ 300" by simp
  have b: "\<bar>1 / 2 ^ 60 :: real\<bar> \<le> 10 ^ 300"
  proof -
    have "\<bar>1 / 2 ^ 60 :: real\<bar> \<le> 1" by simp
    also have "(1::real) \<le> 10 ^ 300" by (rule one_le_power) simp
    finally show ?thesis .
  qed
  from a b unit_conversion [of "[] :: row list" "[]" 50]
    unit_conversion [of "[] :: row list" "[]" "1 / 2 ^ 60"]
  show ?thesis by blast
qed

lemma all_or_raise_length: "all_or_raise f cs = Inr vs \<Longrightarrow> length vs = length cs"
  by (induction cs arbitrary: vs) (auto split: sum.splits)

lemma all_or_raise_error: "all_or_raise f cs = Inl e \<Longrightarrow> \<exists>c\<in>set cs. f c = Inl e"
  by (induction cs) (auto split: sum.splits)

lemma all_or_raise_Inr_iff:
  "(\<exists>vs. all_or_raise f cs = Inr vs) \<longleftrightarrow> (\<forall>c\<in>set cs. \<exists>v. f c = Inr v)"
proof (induction cs)
  case Nil
  show ?case by simp
next
  case (Cons c cs)
  show ?case
  proof (cases "f c")
    case (Inl e)
    then show ?thesis by auto
  next
    case (Inr v)
    then show ?thesis using Cons.IH
      by (cases "all_or_raise f cs") auto
  qed
qed

lemma year_value_error: "year_value c = Inl e \<Longrightarrow> e = TypeError"
  by (cases c) auto

lemma temperature_value_error: "temperature_value c = Inl e \<Longrightarrow> e = TypeError"
  by (cases c) auto

lemma numeric_cells_iff:
  "numeric_cells r \<longleftrightarrow>
     (\<exists>y. year_value (csv_Year r) = Inr y) \<and> (\<exists>t. temperature_value (csv_AvgTemperature r) = Inr t)"
  by (cases "csv_Year r"; cases "csv_AvgTemperature r") (simp_all add: numeric_cells_def)

lemma preprocess_or_raise_error: "preprocess_or_raise raw cities = Inl e \<Longrightarrow> e = TypeError"
  by (auto simp: preprocess_or_raise_def split: sum.splits
      dest!: all_or_raise_error year_value_error temperature_value_error)

lemma preprocess_or_raise_Inr_iff:
  "(\<exists>out. preprocess_or_raise raw cities = Inr out) \<longleftrightarrow> list_all numeric_cells raw"
proof -
  have "(\<exists>out. preprocess_or_raise raw cities = Inr out) \<longleftrightarrow>
        (\<exists>ys. all_or_raise year_value (map csv_Year raw) = Inr ys) \<and>
        (\<exists>ts. all_or_raise temperature_value (map csv_AvgTemperature raw) = Inr ts)"
    by (auto simp: preprocess_or_raise_def split: sum.splits)
  then show ?thesis
    by (auto simp: all_or_raise_Inr_iff list_all_iff numeric_cells_iff)
qed

text \<open>
  Claim C9 says that the pipeline never raises on a malformed row. A row with a text
  cell in the \<open>Year\<close> column, or in the temperature column, is a row that a file can
  hold; on a table of one such row the call raises TypeError and returns no table.
\<close>
theorem text_cell_raises:
  "preprocess_or_raise [csv_columbus\<lparr>csv_Year := YearText ''MMV''\<rparr>] illinois
     = Inl TypeError \<and>
   preprocess_or_raise [csv_columbus\<lparr>csv_AvgTemperature := TemperatureText ''warm''\<rparr>] illinois
     = Inl TypeError"
  by (simp add: preprocess_or_raise_def csv_columbus_def)

text \<open>
  Claim C9, as the code has it. On a table whose \<open>Year\<close> cells are numbers or NaN and
  whose temperature cells are numbers the call does not raise: it returns a table with
  as many rows as the input, in the same order, and each of its rows is the input row
  with at most the columns \<open>State\<close>, \<open>Day\<close>, \<open>Year\<close> and \<open>AvgTemperature\<close> replaced;
  every other column, named or not, is the input's. On every other table the call raises
  TypeError.
\<close>
theorem rows_kept:
  "(list_all numeric_cells raw \<longrightarrow>
      (\<exists>out. preprocess_or_raise raw cities = Inr out \<and>
         length out = length raw \<and>
         (\<forall>i<length raw.
            out ! i =
              (as_row (raw ! i) (Year (out ! i)) (AvgTemperature (out ! i)))
                \<lparr>State := State (out ! i), Day := Day (out ! i)\<rparr>))) \<and>
   (\<not> list_all numeric_cells raw \<longrightarrow> preprocess_or_raise raw cities = Inl TypeError)"
proof (intro conjI impI)
  assume "list_all numeric_cells raw"
  then obtain out where out: "preprocess_or_raise raw cities = Inr out"
    using preprocess_or_raise_Inr_iff [of raw cities] by blast
  then obtain ys ts where ys: "all_or_raise year_value (map csv_Year raw) = Inr ys"
    and ts: "all_or_raise temperature_value (map csv_AvgTemperature raw) = Inr ts"
    and o: "out = preprocess_temperature_data
                    (map (\<lambda>(r, y, t). as_row r y t) (zip raw (zip ys ts))) cities"
    by (auto simp: preprocess_or_raise_def split: sum.splits)
  let ?data = "map (\<lambda>(r, y, t). as_row r y t) (zip raw (zip ys ts))"
  have l: "length ys = length raw" "length ts = length raw"
    using all_or_raise_length [OF ys] all_or_raise_length [OF ts] by simp_all
  then have ld: "length ?data = length raw" by simp
  have "out ! i =
          (as_row (raw ! i) (Year (out ! i)) (AvgTemperature (out ! i)))
            \<lparr>State := State (out ! i), Day := Day (out ! i)\<rparr>"
    if "i < length raw" for i
  proof -
    have d: "?data ! i = as_row (raw ! i) (ys ! i) (ts ! i)"
      using that l by simp
    have "out ! i = clean_row (city_to_state cities) (?data ! i)
                      (correct_years (map Year ?data) ! i)"
      unfolding o using that ld by (intro preprocess_nth) simp
    then show ?thesis
      unfolding d by (simp add: clean_row_def as_row_def)
  qed
  moreover have "length out = length raw"
    unfolding o by (simp add: length_preprocess l)
  ultimately show "\<exists>out. preprocess_or_raise raw cities = Inr out \<and>
         length out = length raw \<and>
         (\<forall>i<length raw.
            out ! i =
              (as_row (raw ! i) (Year (out ! i)) (AvgTemperature (out ! i)))
                \<lparr>State := State (out ! i), Day := Day (out ! i)\<rparr>)"
    using out by blast
next
  assume n: "\<not> list_all numeric_cells raw"
  show "preprocess_or_raise raw cities = Inl TypeError"
  proof (cases "preprocess_or_raise raw cities")
    case (Inl e)
    then show ?thesis using preprocess_or_raise_error [of raw cities e] by simp
  next
    case (Inr out)
    then show ?thesis using n preprocess_or_raise_Inr_iff [of raw cities] by blast
  qed
qed

text \<open>A numeric table of two rows, and a table with a text temperature.\<close>
theorem rows_kept_witness:
  "list_all numeric_cells [csv_springfield, csv_columbus] \<and>
   preprocess_or_raise [csv_springfield, csv_columbus] illinois =
     Inr [springfield\<lparr>State := Some ''Illinois'', Day := 1, Year := Some 2005,
                       AvgTemperature := 0\<rparr>,
          columbus\<lparr>AvgTemperature := 10\<rparr>] \<and>
   \<not> list_all numeric_cells [csv_columbus\<lparr>csv_AvgTemperature := TemperatureText ''n/a''\<rparr>] \<and>
   preprocess_or_raise [csv_columbus\<lparr>csv_AvgTemperature := TemperatureText ''n/a''\<rparr>] illinois
     = Inl TypeError"
proof -
  have a: "list_all numeric_cells [csv_springfield, csv_columbus]"
    by (simp add: numeric_cells_def csv_springfield_def csv_columbus_def)
  have b: "\<not> list_all numeric_cells [csv_columbus\<lparr>csv_AvgTemperature := TemperatureText ''n/a''\<rparr>]"
    by (simp add: numeric_cells_def csv_columbus_def)
  have c: "preprocess_or_raise [csv_springfield, csv_columbus] illinois =
     Inr [springfield\<lparr>State := Some ''Illinois'', Day := 1, Year := Some 2005,
                       AvgTemperature := 0\<rparr>,
          columbus\<lparr>AvgTemperature := 10\<rparr>]"
    by (simp add: preprocess_or_raise_def as_row_def pipeline_defs to_celsius_32 to_celsius_50
        csv_springfield_def csv_columbus_def springfield_def columbus_def illinois_def)
  from a b c rows_kept [of "[csv_springfield, csv_columbus]" illinois]
    rows_kept [of "[csv_columbus\<lparr>csv_AvgTemperature := TemperatureText ''n/a''\<rparr>]" illinois]
  show ?thesis by blast
qed


section \<open>Properties of the aggregation layer\<close>

lemma groupby_mean_keys: "map fst (groupby_mean key val rows) = sort (remdups (map key rows))"
  by (simp add: groupby_mean_def o_def)

lemma set_groupby_mean_keys: "set (map fst (groupby_mean key val rows)) = key ` set rows"
  by (simp add: groupby_mean_keys)

lemma distinct_groupby_mean_keys: "distinct (map fst (groupby_mean key val rows))"
  by (simp add: groupby_mean_keys)

lemma sorted_groupby_mean_keys: "sorted (map fst (groupby_mean key val rows))"
  by (simp add: groupby_mean_keys)

lemma map_of_groupby_mean:
  "map_of (groupby_mean key val rows) k =
     (if k \<in> key ` set rows
      then Some (mean (map val (filter (\<lambda>r. key r = k) rows)))
      else None)"
  by (simp add: groupby_mean_def map_of_map_restrict restrict_map_def)

lemma group_empty_iff: "filter (\<lambda>r. key r = k) rows = [] \<longleftrightarrow> k \<notin> key ` set rows"
  by (auto simp: filter_empty_conv)

lemma map_of_sort_values:
  assumes "distinct (map fst s)"
  shows "map_of (sort_values s) = map_of s"
proof -
  have "distinct (map fst (sort_values s))"
    using assms by (simp add: sort_values_def distinct_map)
  moreover have "set (sort_values s) = set s" by (simp add: sort_values_def)
  ultimately show ?thesis using assms by (simp add: map_of_inject_set)
qed

lemma distinct_sort_values: "distinct (map fst s) \<Longrightarrow> distinct (map fst (sort_values s))"
  by (simp add: sort_values_def distinct_map)

text \<open>
  Claim C6. Each of the three summaries that the charts are drawn from, the regional,
  the seasonal and the one by country, has exactly one entry for each key value that
  occurs in the table and none for any other; the entry of a key is the sum of the
  temperature over the rows carrying that key, divided by their number. The same holds
  of the grouped mean for any key and value column, and a key that no row carries has
  no entry. Three rows (Asia, 10), (Asia, 20), (Europe, 5) grouped by region give Asia 15
  and Europe 5.
\<close>
theorem grouped_mean:
  "map_of (regional_avg_temp data) region =
     (if region \<in> Region ` set data
      then Some (sum_list (map AvgTemperature (filter (\<lambda>r. Region r = region) data)) /
                 real (length (filter (\<lambda>r. Region r = region) data)))
      else None) \<and>
   distinct (map fst (regional_avg_temp data)) \<and>
   map_of (seasonal_data data) (region, month) =
     (if (region, month) \<in> (\<lambda>r. (Region r, Month r)) ` set data
      then Some (sum_list (map AvgTemperature
                   (filter (\<lambda>r. (Region r, Month r) = (region, month)) data)) /
                 real (length (filter (\<lambda>r. (Region r, Month r) = (region, month)) data)))
      else None) \<and>
   distinct (map fst (seasonal_data data)) \<and>
   map_of (avg_temps data) country =
     (if country \<in> Country ` set data
      then Some (sum_list (map AvgTemperature (filter (\<lambda>r. Country r = country) data)) /
                 real (length (filter (\<lambda>r. Country r = country) data)))
      else None) \<and>
   distinct (map fst (avg_temps data)) \<and>
   set (map fst (groupby_mean key val rows)) = key ` set rows \<and>
   distinct (map fst (groupby_mean key val rows)) \<and>
   map_of (groupby_mean key val rows) k =
     (if k \<in> key ` set rows
      then Some (sum_list (map val (filter (\<lambda>r. key r = k) rows)) /
                 real (length (filter (\<lambda>r. key r = k) rows)))
      else None) \<and>
   (map_of (groupby_mean key val rows) k = None \<longleftrightarrow> filter (\<lambda>r. key r = k) rows = []) \<and>
   groupby_mean Region AvgTemperature [asia10, asia20, europe5] = [(''Asia'', 15), (''Europe'', 5)] \<and>
   map_of (regional_avg_temp [asia10, asia20, europe5]) ''Asia'' = Some 15 \<and>
   map_of (regional_avg_temp [asia10, asia20, europe5]) ''Europe'' = Some 5 \<and>
   map_of (regional_avg_temp [asia10, asia20, europe5]) ''Africa'' = None"
proof -
  have r: "map_of (regional_avg_temp data) region =
     (if region \<in> Region ` set data
      then Some (sum_list (map AvgTemperature (filter (\<lambda>r. Region r = region) data)) /
                 real (length (filter (\<lambda>r. Region r = region) data)))
      else None)"
    unfolding regional_avg_temp_def
    by (simp add: map_of_sort_values distinct_groupby_mean_keys map_of_groupby_mean mean_def
        del: set_map)
  have rd: "distinct (map fst (regional_avg_temp data))"
    unfolding regional_avg_temp_def
    by (rule distinct_sort_values) (rule distinct_groupby_mean_keys)
  have s: "map_of (seasonal_data data) (region, month) =
     (if (region, month) \<in> (\<lambda>r. (Region r, Month r)) ` set data
      then Some (sum_list (map AvgTemperature
                   (filter (\<lambda>r. (Region r, Month r) = (region, month)) data)) /
                 real (length (filter (\<lambda>r. (Region r, Month r) = (region, month)) data)))
      else None)"
    unfolding seasonal_data_def by (simp only: map_of_groupby_mean mean_def length_map)
  have sd: "distinct (map fst (seasonal_data data))"
    unfolding seasonal_data_def by (rule distinct_groupby_mean_keys)
  have c: "map_of (avg_temps data) country =
     (if country \<in> Country ` set data
      then Some (sum_list (map AvgTemperature (filter (\<lambda>r. Country r = country) data)) /
                 real (length (filter (\<lambda>r. Country r = country) data)))
      else None)"
    unfolding avg_temps_def by (simp only: map_of_groupby_mean mean_def length_map)
  have cd: "distinct (map fst (avg_temps data))"
    unfolding avg_temps_def by (rule distinct_groupby_mean_keys)
  have g: "map_of (groupby_mean key val rows) k =
     (if k \<in> key ` set rows
      then Some (sum_list (map val (filter (\<lambda>r. key r = k) rows)) /
                 real (length (filter (\<lambda>r. key r = k) rows)))
      else None)"
    by (simp only: map_of_groupby_mean mean_def length_map)
  have gn: "map_of (groupby_mean key val rows) k = None \<longleftrightarrow> filter (\<lambda>r. key r = k) rows = []"
    by (simp add: map_of_groupby_mean group_empty_iff del: set_map)
  have e: "groupby_mean Region AvgTemperature [asia10, asia20, europe5] = [(''Asia'', 15), (''Europe'', 5)]"
    by (simp add: groupby_mean_def mean_def asia10_def asia20_def europe5_def)
  then have e2: "regional_avg_temp [asia10, asia20, europe5] = [(''Europe'', 5), (''Asia'', 15)]"
    by (simp add: regional_avg_temp_def sort_values_def)
  have ex: "map_of (regional_avg_temp [asia10, asia20, europe5]) ''Asia'' = Some 15"
    "map_of (regional_avg_temp [asia10, asia20, europe5]) ''Europe'' = Some 5"
    "map_of (regional_avg_temp [asia10, asia20, europe5]) ''Africa'' = None"
    unfolding e2 by simp_all
  from r rd s sd c cd g gn e ex set_groupby_mean_keys [of key val rows]
    distinct_groupby_mean_keys [of key val rows]
  show ?thesis by blast
qed

lemma sorted_regional: "sorted (map snd (regional_avg_temp cleaned_data))"
  by (simp add: regional_avg_temp_def sort_values_def)

text \<open>
  Claim C8. The regional summary is ascending in its means: the list of its means is
  sorted, so every entry is at most every later one. Sorting keeps the entries of the
  grouped mean. On the three sample rows Europe (5) comes before Asia (15).
\<close>
theorem regional_summary_sorted:
  "sorted (map snd (regional_avg_temp cleaned_data)) \<and>
   set (regional_avg_temp cleaned_data) = set (groupby_mean Region AvgTemperature cleaned_data) \<and>
   length (regional_avg_temp cleaned_data) = length (groupby_mean Region AvgTemperature cleaned_data) \<and>
   regional_avg_temp [asia10, asia20, europe5] = [(''Europe'', 5), (''Asia'', 15)]"
proof -
  have "groupby_mean Region AvgTemperature [asia10, asia20, europe5] = [(''Asia'', 15), (''Europe'', 5)]"
    by (simp add: groupby_mean_def mean_def asia10_def asia20_def europe5_def)
  then have "regional_avg_temp [asia10, asia20, europe5] = [(''Europe'', 5), (''Asia'', 15)]"
    by (simp add: regional_avg_temp_def sort_values_def)
  then show ?thesis by (simp add: sorted_regional) (simp add: regional_avg_temp_def sort_values_def)
qed

lemma scan_extreme_first:
  assumes "lt = (\<lambda>a b. a < b) \<or> lt = (\<lambda>a b. b < a)"
    and "i < length pre" and "pre ! i = best"
    and "\<forall>j<length pre. \<not> lt (snd (pre ! j)) (snd best)"
    and "\<forall>j<i. lt (snd best) (snd (pre ! j))"
  shows "\<exists>m<length (pre @ es). (pre @ es) ! m = scan_extreme lt best es \<and>
           (\<forall>j<length (pre @ es). \<not> lt (snd ((pre @ es) ! j)) (snd ((pre @ es) ! m))) \<and>
           (\<forall>j<m. lt (snd ((pre @ es) ! m)) (snd ((pre @ es) ! j)))"
  using assms(2-)
proof (induction es arbitrary: pre i best)
  case Nil
  then show ?case by auto
next
  case (Cons e es)
  let ?pre = "pre @ [e]"
  let ?best = "if lt (snd e) (snd best) then e else best"
  let ?i = "if lt (snd e) (snd best) then length pre else i"
  have a: "?i < length ?pre" using Cons.prems(1) by simp
  have b: "?pre ! ?i = ?best" using Cons.prems(1,2) by (simp add: nth_append)
  have c: "\<forall>j<length ?pre. \<not> lt (snd (?pre ! j)) (snd ?best)"
    using assms(1) Cons.prems(3) by (auto simp: nth_append less_Suc_eq)
  have d: "\<forall>j<?i. lt (snd ?best) (snd (?pre ! j))"
    using assms(1) Cons.prems(1,3,4) by (auto simp: nth_append)
  from Cons.IH [OF a b c d] show ?case by simp
qed

lemma first_extreme_first:
  assumes "lt = (\<lambda>a b. a < b) \<or> lt = (\<lambda>a b. b < a)" and "s \<noteq> []"
  shows "\<exists>m<length s. first_extreme lt s = Some (s ! m) \<and>
           (\<forall>j<length s. \<not> lt (snd (s ! j)) (snd (s ! m))) \<and>
           (\<forall>j<m. lt (snd (s ! m)) (snd (s ! j)))"
proof -
  from assms(2) obtain e es where s: "s = e # es" by (cases s) auto
  have app: "[e] @ es = s" by (simp add: s)
  have "\<forall>j<length [e]. \<not> lt (snd ([e] ! j)) (snd e)" using assms(1) by auto
  then have "\<exists>m<length ([e] @ es). ([e] @ es) ! m = scan_extreme lt e es \<and>
           (\<forall>j<length ([e] @ es). \<not> lt (snd (([e] @ es) ! j)) (snd (([e] @ es) ! m))) \<and>
           (\<forall>j<m. lt (snd (([e] @ es) ! m)) (snd (([e] @ es) ! j)))"
    by (intro scan_extreme_first [OF assms(1), of 0 "[e]" e es]) simp_all
  then obtain m where m: "m < length s" "s ! m = scan_extreme lt e es"
      "\<forall>j<length s. \<not> lt (snd (s ! j)) (snd (s ! m))"
      "\<forall>j<m. lt (snd (s ! m)) (snd (s ! j))"
    unfolding app by blast
  have "first_extreme lt s = Some (s ! m)"
    by (simp add: s first_extreme_def m(2) [unfolded s])
  with m show ?thesis by blast
qed

lemma plot_bar_chart_extreme_eq:
  "plot_bar_chart_extreme selection s =
     (case first_extreme (if selection = ''Min'' then (\<lambda>a b. a < b) else (\<lambda>a b. b < a)) s of
        None \<Rightarrow> Inl ValueError | Some e \<Rightarrow> Inr e)"
  by (simp add: plot_bar_chart_extreme_def series_min_def series_max_def idxmin_def idxmax_def
      split: option.splits)

lemma extreme_nonempty:
  assumes "s \<noteq> []"
  shows "\<exists>m<length s. plot_bar_chart_extreme selection s = Inr (s ! m) \<and>
      (\<forall>j<length s. if selection = ''Min'' then snd (s ! m) \<le> snd (s ! j)
                     else snd (s ! j) \<le> snd (s ! m)) \<and>
      (\<forall>j<m. snd (s ! j) \<noteq> snd (s ! m))"
proof (cases "selection = ''Min''")
  case True
  from first_extreme_first [of "\<lambda>a b. a < b" s] assms
  obtain m where "m < length s" "first_extreme (\<lambda>a b. a < b) s = Some (s ! m)"
    "\<forall>j<length s. \<not> snd (s ! j) < snd (s ! m)" "\<forall>j<m. snd (s ! m) < snd (s ! j)"
    by auto
  with True show ?thesis
    by (intro exI [of _ m]) (auto simp: plot_bar_chart_extreme_eq not_less)
next
  case False
  from first_extreme_first [of "\<lambda>a b. b < a" s] assms
  obtain m where "m < length s" "first_extreme (\<lambda>a b. b < a) s = Some (s ! m)"
    "\<forall>j<length s. \<not> snd (s ! m) < snd (s ! j)" "\<forall>j<m. snd (s ! j) < snd (s ! m)"
    by auto
  with False show ?thesis
    by (intro exI [of _ m]) (auto simp: plot_bar_chart_extreme_eq not_less)
qed

lemma extreme_empty: "plot_bar_chart_extreme selection [] = Inl ValueError"
  by (simp add: plot_bar_chart_extreme_eq first_extreme_def)

lemma max_temp_row_nonempty:
  assumes "filter (\<lambda>e. fst (fst e) = region) s \<noteq> []"
  shows "\<exists>m<length (filter (\<lambda>e. fst (fst e) = region) s).
      max_temp_row region s = Some (filter (\<lambda>e. fst (fst e) = region) s ! m) \<and>
      (\<forall>j<length (filter (\<lambda>e. fst (fst e) = region) s).
          snd (filter (\<lambda>e. fst (fst e) = region) s ! j) \<le> snd (filter (\<lambda>e. fst (fst e) = region) s ! m)) \<and>
      (\<forall>j<m. snd (filter (\<lambda>e. fst (fst e) = region) s ! j) \<noteq> snd (filter (\<lambda>e. fst (fst e) = region) s ! m))"
proof -
  let ?rd = "filter (\<lambda>e. fst (fst e) = region) s"
  from first_extreme_first [of "\<lambda>a b. b < a" ?rd] assms
  obtain m where "m < length ?rd" "first_extreme (\<lambda>a b. b < a) ?rd = Some (?rd ! m)"
    "\<forall>j<length ?rd. \<not> snd (?rd ! m) < snd (?rd ! j)" "\<forall>j<m. snd (?rd ! j) < snd (?rd ! m)"
    by auto
  with assms show ?thesis
    by (intro exI [of _ m]) (auto simp: max_temp_row_def Let_def not_less)
qed

text \<open>
  Claim C7 names the iteration order of a summary other than the regional one as the
  order in which the groups are discovered. \<^verbatim>\<open>groupby\<close> delivers the groups in
  sorted key order instead. In the sample, February is met before January and both have
  the same mean; the seasonal summary lists January first and the lookup returns
  January.
\<close>
theorem seasonal_tie_by_key_order:
  "map (\<lambda>r. (Region r, Month r)) [asia_feb, asia_jan] = [(''Asia'', 2), (''Asia'', 1)] \<and>
   AvgTemperature asia_feb = AvgTemperature asia_jan \<and>
   seasonal_data [asia_feb, asia_jan] = [((''Asia'', 1), 10), ((''Asia'', 2), 10)] \<and>
   max_temp_row ''Asia'' (seasonal_data [asia_feb, asia_jan]) = Some ((''Asia'', 1), 10)"
proof -
  have "seasonal_data [asia_feb, asia_jan] = [((''Asia'', 1), 10), ((''Asia'', 2), 10)]"
    by (simp add: seasonal_data_def groupby_mean_def mean_def asia_feb_def asia_jan_def
        less_eq_prod_def less_prod_def)
  then show ?thesis
    by (simp add: max_temp_row_def first_extreme_def asia_feb_def asia_jan_def)
qed

text \<open>
  Claim C7, as the code has it. On a non-empty summary the lookup returns an entry of
  the summary whose mean is the least (selection Min) or the greatest (any other
  selection) of all, and no earlier entry of the summary has that mean: ties go to the
  first entry in the summary's order. The same holds for the highest month of a region
  in the seasonal summary. The order of the regional summary is ascending mean; the
  order of the seasonal summary is ascending key (region, then month). On Asia 15,
  Europe 5 the maximum is (Asia, 15).
\<close>
theorem extreme_lookup:
  "(s \<noteq> [] \<longrightarrow>
      (\<exists>m<length s. plot_bar_chart_extreme selection s = Inr (s ! m) \<and>
         (\<forall>j<length s. if selection = ''Min'' then snd (s ! m) \<le> snd (s ! j)
                        else snd (s ! j) \<le> snd (s ! m)) \<and>
         (\<forall>j<m. snd (s ! j) \<noteq> snd (s ! m)))) \<and>
   (filter (\<lambda>e. fst (fst e) = region) seasonal \<noteq> [] \<longrightarrow>
      (\<exists>m<length (filter (\<lambda>e. fst (fst e) = region) seasonal).
         max_temp_row region seasonal = Some (filter (\<lambda>e. fst (fst e) = region) seasonal ! m) \<and>
         (\<forall>j<length (filter (\<lambda>e. fst (fst e) = region) seasonal).
            snd (filter (\<lambda>e. fst (fst e) = region) seasonal ! j)
              \<le> snd (filter (\<lambda>e. fst (fst e) = region) seasonal ! m)) \<and>
         (\<forall>j<m. snd (filter (\<lambda>e. fst (fst e) = region) seasonal ! j)
              \<noteq> snd (filter (\<lambda>e. fst (fst e) = region) seasonal ! m)))) \<and>
   sorted (map snd (regional_avg_temp cleaned_data)) \<and>
   sorted (map fst (seasonal_data data)) \<and>
   plot_bar_chart_extreme ''Max'' [(''Asia'', 15), (''Europe'', 5)] = Inr (''Asia'', 15)"
proof -
  have "plot_bar_chart_extreme ''Max'' [(''Asia'', 15), (''Europe'', 5::real)] = Inr (''Asia'', 15)"
    by (simp add: plot_bar_chart_extreme_eq first_extreme_def)
  moreover have "sorted (map fst (seasonal_data data))"
    by (simp add: seasonal_data_def sorted_groupby_mean_keys)
  ultimately show ?thesis
    using extreme_nonempty [of s selection] max_temp_row_nonempty [of region seasonal]
      sorted_regional [of cleaned_data]
    by blast
qed

text \<open>Two non-empty summaries, each with a tie that goes to the first entry.\<close>
theorem extreme_lookup_witness:
  "[(''Europe'', 5::real), (''Asia'', 5), (''Africa'', 15)] \<noteq> [] \<and>
   plot_bar_chart_extreme ''Min'' [(''Europe'', 5), (''Asia'', 5), (''Africa'', 15)] = Inr (''Europe'', 5) \<and>
   filter (\<lambda>e. fst (fst e) = ''Asia'') [((''Asia'', 1), 10), ((''Asia'', 2), 10), ((''Europe'', 1), 12)] \<noteq> [] \<and>
   max_temp_row ''Asia'' [((''Asia'', 1), 10), ((''Asia'', 2), 10), ((''Europe'', 1), 12)]
     = Some ((''Asia'', 1), 10)"
  using extreme_lookup [of "[(''Europe'', 5), (''Asia'', 5), (''Africa'', 15)]" "''Min''"
      "''Asia''" "[((''Asia'', 1), 10), ((''Asia'', 2), 10), ((''Europe'', 1), 12)]"
      "[] :: row list" "[] :: row list"]
  by (simp add: plot_bar_chart_extreme_eq first_extreme_def max_temp_row_def)


section \<open>Properties of the pipeline on a store\<close>

lemma store_run:
  assumes "data < length (frames h)" "cities < length (city_frames h)"
  shows "preprocess_store data cities h =
     Some (length (frames h),
           h\<lparr>frames := frames h @
               [preprocess_temperature_data (frames h ! data) (city_frames h ! cities)]\<rparr>)"
  using assms
  by (simp add: preprocess_store_def copy_frame_def modify_frame_def
      preprocess_temperature_data_def Let_def nth_append)

text \<open>
  Claim C10. When the two arguments name frames of the store, the call returns a frame
  at a new position; the frame and the city table it was given, and every other frame
  that was in the store, are as before, and the new frame is the cleaned table.
\<close>
theorem arguments_not_mutated:
  "data < length (frames h) \<Longrightarrow> cities < length (city_frames h) \<Longrightarrow>
   \<exists>cleaned h'.
     preprocess_store data cities h = Some (cleaned, h') \<and>
     cleaned \<noteq> data \<and>
     frames h' ! data = frames h ! data \<and>
     city_frames h' ! cities = city_frames h ! cities \<and>
     take (length (frames h)) (frames h') = frames h \<and>
     city_frames h' = city_frames h \<and>
     frames h' ! cleaned =
       preprocess_temperature_data (frames h ! data) (city_frames h ! cities)"
  by (simp add: store_run nth_append)

text \<open>A store holding the sample table and the sample city table.\<close>
theorem arguments_not_mutated_witness:
  "(0::nat) < length (frames sample_store) \<and> (0::nat) < length (city_frames sample_store) \<and>
   preprocess_store 0 0 sample_store =
     Some (1, \<lparr>frames = [[springfield, columbus],
                         [springfield\<lparr>State := Some ''Illinois'', Day := 1, Year := Some 2005,
                                      AvgTemperature := 0\<rparr>,
                          columbus\<lparr>AvgTemperature := 10\<rparr>]],
               city_frames = [illinois]\<rparr>)"
  using arguments_not_mutated [of 0 sample_store 0]
  by (simp add: sample_store_def preprocess_store_def copy_frame_def modify_frame_def
      pipeline_defs to_celsius_32 to_celsius_50 springfield_def columbus_def illinois_def)

end
